theory Spec2Isabelle
  imports Main
begin

section \<open>Python values and exceptions\<close>

text \<open>
  The values that \<^verbatim>\<open>response.json()\<close> can return: \<^verbatim>\<open>None\<close>, booleans, integers, strings,
  lists and dicts. A dict is the list of its items in insertion order; a key is looked up
  with \<^term>\<open>map_of\<close>. Strings are lists of 8-bit characters. Floating point numbers are
  left out.
\<close>

datatype json =
    JNull
  | JBool bool
  | JInt int
  | JStr string
  | JArr "json list"
  | JObj "(string \<times> json) list"

text \<open>
  The exceptions the two scripts can meet. Each carries the text that \<^verbatim>\<open>str(e)\<close> yields.
  \<open>RequestException\<close> stands for \<^verbatim>\<open>requests.RequestException\<close> and all its subclasses;
  \<open>OtherException\<close> for what the database client raises.
\<close>

datatype py_error =
    RequestException string
  | KeyError string
  | IndexError string
  | TypeError string
  | AttributeError string
  | ValueError string
  | OtherException string

fun err_str :: "py_error \<Rightarrow> string" where
  "err_str (RequestException m) = m"
| "err_str (KeyError m) = m"
| "err_str (IndexError m) = m"
| "err_str (TypeError m) = m"
| "err_str (AttributeError m) = m"
| "err_str (ValueError m) = m"
| "err_str (OtherException m) = m"

fun is_request_exception :: "py_error \<Rightarrow> bool" where
  "is_request_exception (RequestException m) = True"
| "is_request_exception e = False"

fun type_name :: "json \<Rightarrow> string" where
  "type_name JNull = ''NoneType''"
| "type_name (JBool b) = ''bool''"
| "type_name (JInt n) = ''int''"
| "type_name (JStr s) = ''str''"
| "type_name (JArr xs) = ''list''"
| "type_name (JObj kvs) = ''dict''"

text \<open>Truth value of a Python object, as \<^verbatim>\<open>if x:\<close> and \<^verbatim>\<open>not x\<close> test it.\<close>

fun truthy :: "json \<Rightarrow> bool" where
  "truthy JNull = False"
| "truthy (JBool b) = b"
| "truthy (JInt n) = (n \<noteq> 0)"
| "truthy (JStr s) = (s \<noteq> [])"
| "truthy (JArr xs) = (xs \<noteq> [])"
| "truthy (JObj kvs) = (kvs \<noteq> [])"

text \<open>A string between single quotes, as error messages show names.\<close>

definition quoted :: "string \<Rightarrow> string" where
  "quoted s = [CHR 0x27] @ s @ [CHR 0x27]"

definition no_attribute :: "json \<Rightarrow> string \<Rightarrow> py_error" where
  "no_attribute v a =
     AttributeError (quoted (type_name v) @ '' object has no attribute '' @ quoted a)"

text \<open>\<^verbatim>\<open>d.get(k, default)\<close>: only a dict has the method.\<close>

fun dict_get :: "json \<Rightarrow> string \<Rightarrow> json \<Rightarrow> py_error + json" where
  "dict_get (JObj kvs) k dflt = Inr (case map_of kvs k of None \<Rightarrow> dflt | Some v \<Rightarrow> v)"
| "dict_get v k dflt = Inl (no_attribute v ''get'')"

text \<open>\<^verbatim>\<open>d[k]\<close> with a string key \<open>k\<close>.\<close>

fun subscript :: "json \<Rightarrow> string \<Rightarrow> py_error + json" where
  "subscript (JObj kvs) k =
     (case map_of kvs k of
        None \<Rightarrow> Inl (KeyError (quoted k))
      | Some v \<Rightarrow> Inr v)"
| "subscript (JStr s) k = Inl (TypeError ''string indices must be integers'')"
| "subscript (JArr xs) k = Inl (TypeError ''list indices must be integers or slices, not str'')"
| "subscript v k = Inl (TypeError (quoted (type_name v) @ '' object is not subscriptable''))"

text \<open>\<^verbatim>\<open>x[0]\<close>.\<close>

fun subscript0 :: "json \<Rightarrow> py_error + json" where
  "subscript0 (JArr []) = Inl (IndexError ''list index out of range'')"
| "subscript0 (JArr (x # xs)) = Inr x"
| "subscript0 (JStr []) = Inl (IndexError ''string index out of range'')"
| "subscript0 (JStr (c # cs)) = Inr (JStr [c])"
| "subscript0 (JObj kvs) = Inl (KeyError ''0'')"
| "subscript0 v = Inl (TypeError (quoted (type_name v) @ '' object is not subscriptable''))"

text \<open>\<^verbatim>\<open>for x in v\<close>: the items a loop over \<open>v\<close> visits.\<close>

fun py_iter :: "json \<Rightarrow> py_error + json list" where
  "py_iter (JArr xs) = Inr xs"
| "py_iter (JStr s) = Inr (map (\<lambda>c. JStr [c]) s)"
| "py_iter (JObj kvs) = Inr (map (\<lambda>kv. JStr (fst kv)) kvs)"
| "py_iter v = Inl (TypeError (quoted (type_name v) @ '' object is not iterable''))"

text \<open>\<^verbatim>\<open>s.lower()\<close> on the ASCII letters; other characters are left as they are.\<close>

definition lower_char :: "char \<Rightarrow> char" where
  "lower_char c =
     (case map_of (zip ''ABCDEFGHIJKLMNOPQRSTUVWXYZ'' ''abcdefghijklmnopqrstuvwxyz'') c of
        None \<Rightarrow> c
      | Some l \<Rightarrow> l)"

definition lower :: "string \<Rightarrow> string" where
  "lower s = map lower_char s"

fun str_lower :: "json \<Rightarrow> py_error + string" where
  "str_lower (JStr s) = Inr (lower s)"
| "str_lower v = Inl (no_attribute v ''lower'')"

text \<open>\<^verbatim>\<open>xs in ys\<close> on strings: \<open>xs\<close> occurs in \<open>ys\<close> as a contiguous block.\<close>

fun starts_with :: "'a list \<Rightarrow> 'a list \<Rightarrow> bool" where
  "starts_with [] ys = True"
| "starts_with (x # xs) [] = False"
| "starts_with (x # xs) (y # ys) = (x = y \<and> starts_with xs ys)"

fun py_in :: "'a list \<Rightarrow> 'a list \<Rightarrow> bool" where
  "py_in xs [] = (xs = [])"
| "py_in xs (y # ys) = (starts_with xs (y # ys) \<or> py_in xs ys)"

text \<open>Decimal digits of an integer, as \<^verbatim>\<open>str(n)\<close> prints them.\<close>

definition digit :: "nat \<Rightarrow> char" where
  "digit d = ''0123456789'' ! d"

fun show_nat :: "nat \<Rightarrow> string" where
  "show_nat n = (if n < 10 then [digit n] else show_nat (n div 10) @ [digit (n mod 10)])"

definition show_int :: "int \<Rightarrow> string" where
  "show_int i = (if i < 0 then ''-'' @ show_nat (nat (- i)) else show_nat (nat i))"

text \<open>
  \<^verbatim>\<open>str(v)\<close>, which an f-string applies to the values it formats. For a list or a dict it
  is \<^verbatim>\<open>repr(v)\<close>, whose quoting rules are not modelled: \<open>repr\<close> is a parameter.
\<close>

fun py_str :: "(json \<Rightarrow> string) \<Rightarrow> json \<Rightarrow> string" where
  "py_str repr JNull = ''None''"
| "py_str repr (JBool b) = (if b then ''True'' else ''False'')"
| "py_str repr (JInt n) = show_int n"
| "py_str repr (JStr s) = s"
| "py_str repr v = repr v"

section \<open>The outside world: HTTP, the database, the log\<close>

text \<open>
  What \<^verbatim>\<open>requests.get\<close> or \<^verbatim>\<open>requests.post\<close> meets: the request fails before a response
  arrives (with the text of the exception), or a response arrives with its status code,
  its reason phrase, its final URL and the outcome of \<^verbatim>\<open>response.json()\<close>: the text of
  the decoding error, or the decoded value.
\<close>

datatype response =
    NoResponse string
  | Response nat string string "string + json"

record request =
  req_method :: string
  req_url :: string
  req_headers :: "(string \<times> string) list"
  req_params :: "(string \<times> json) list"

datatype level = INFO | WARNING | ERROR

text \<open>
  What a run does to the world, in order: the HTTP requests it issues, the rows it
  inserts (table and row), the lines it logs, the pauses it takes.
\<close>

datatype event =
    Request request
  | Insert string "(string \<times> json) list"
  | Log level string
  | Sleep

text \<open>
  \<^verbatim>\<open>response.raise_for_status()\<close> of the requests library raises \<^verbatim>\<open>HTTPError\<close>, a
  \<^verbatim>\<open>RequestException\<close>, for the status codes 400 to 599 and for no other.
\<close>

definition raise_for_status :: "nat \<Rightarrow> string \<Rightarrow> string \<Rightarrow> py_error + unit" where
  "raise_for_status st reason u =
     (if 400 \<le> st \<and> st < 500
        then Inl (RequestException (show_nat st @ '' Client Error: '' @ reason @ '' for url: '' @ u))
      else if 500 \<le> st \<and> st < 600
        then Inl (RequestException (show_nat st @ '' Server Error: '' @ reason @ '' for url: '' @ u))
      else Inr ())"

text \<open>
  The three lines \<^verbatim>\<open>response = requests.get(...)\<close>, \<^verbatim>\<open>response.raise_for_status()\<close>,
  \<^verbatim>\<open>response.json()\<close> against one outcome of the request. A body that does not decode
  raises \<^verbatim>\<open>requests.exceptions.JSONDecodeError\<close>, a \<^verbatim>\<open>RequestException\<close> too.
\<close>

fun fetch :: "response \<Rightarrow> py_error + json" where
  "fetch (NoResponse m) = Inl (RequestException m)"
| "fetch (Response st reason u b) =
     (case raise_for_status st reason u of
        Inl e \<Rightarrow> Inl e
      | Inr _ \<Rightarrow> (case b of Inl m \<Rightarrow> Inl (RequestException m) | Inr v \<Rightarrow> Inr v))"

section \<open>The player-count job (api\_ingest.py)\<close>

definition API_URL :: string where
  "API_URL = ''https://servers-frontend.fivem.net/api/servers/single/o3re8y''"

definition browser_headers :: "(string \<times> string) list" where
  "browser_headers =
     [(''User-Agent'', ''Mozilla/5.0 (Windows NT 10.0; Win64; x64) AppleWebKit/537.36 (KHTML, like Gecko) Chrome/91.0.4472.124 Safari/537.36''),
      (''Accept'', ''application/json, text/plain, */*''),
      (''Accept-Language'', ''en-US,en;q=0.9''),
      (''Referer'', ''https://servers.fivem.net/''),
      (''Origin'', ''https://servers.fivem.net'')]"

text \<open>Line 28: \<^verbatim>\<open>requests.get(API_URL, headers=headers)\<close>.\<close>

definition api_request :: event where
  "api_request =
     Request \<lparr>req_method = ''GET'', req_url = API_URL, req_headers = browser_headers, req_params = []\<rparr>"

text \<open>
  Line 35: \<^verbatim>\<open>data.get("Data", {}).get("selfReportedClients", 0)\<close>.
\<close>

definition extract_player_count :: "json \<Rightarrow> py_error + json" where
  "extract_player_count data =
     (case dict_get data ''Data'' (JObj []) of
        Inl e \<Rightarrow> Inl e
      | Inr d \<Rightarrow> dict_get d ''selfReportedClients'' (JInt 0))"

record reply =
  reply_status :: nat
  reply_headers :: "(string \<times> string) list"
  reply_body :: string

text \<open>
  The body of the \<^verbatim>\<open>try\<close> block of \<^verbatim>\<open>do_GET\<close>. \<open>clock k\<close> is what the \<open>k\<close>-th call of
  \<^verbatim>\<open>datetime.utcnow().isoformat()\<close> in this invocation returns; \<open>db\<close> is the outcome of the
  insert, \<open>None\<close> when it succeeds and the text of the exception when it raises. The
  result comes with the events so far and the number of clock readings taken.
\<close>

definition do_GET_try ::
  "(json \<Rightarrow> string) \<Rightarrow> (nat \<Rightarrow> string) \<Rightarrow> response \<Rightarrow> string option
     \<Rightarrow> event list \<times> nat \<times> (py_error + reply)" where
  "do_GET_try repr clock resp db =
     (let req = api_request
      in case fetch resp of
           Inl e \<Rightarrow> ([req], 0, Inl e)
         | Inr data \<Rightarrow>
             (case extract_player_count data of
                Inl e \<Rightarrow> ([req], 0, Inl e)
              | Inr current_players \<Rightarrow>
                  (let timestamp = clock 0;
                       record = [(''timestamp'', JStr timestamp),
                                 (''player_count'', current_players),
                                 (''server_id'', JStr ''o3re8y'')]
                   in case db of
                        Some m \<Rightarrow> ([req], 1, Inl (OtherException m))
                      | None \<Rightarrow>
                          ([req, Insert ''player_counts'' record], 1,
                           Inr \<lparr>reply_status = 200,
                                reply_headers = [(''Content-type'', ''text/plain'')],
                                reply_body = ''['' @ timestamp @ ''] Successfully saved player count: ''
                                             @ py_str repr current_players\<rparr>))))"

text \<open>\<^verbatim>\<open>do_GET\<close> with its two handlers.\<close>

definition do_GET ::
  "(json \<Rightarrow> string) \<Rightarrow> (nat \<Rightarrow> string) \<Rightarrow> response \<Rightarrow> string option \<Rightarrow> event list \<times> reply" where
  "do_GET repr clock resp db =
     (case do_GET_try repr clock resp db of
        (evs, k, Inr r) \<Rightarrow> (evs, r)
      | (evs, k, Inl e) \<Rightarrow>
          (evs,
           \<lparr>reply_status = 500,
            reply_headers = [(''Content-type'', ''text/plain'')],
            reply_body =
              (if is_request_exception e
               then ''['' @ clock k @ ''] API request error: '' @ err_str e
               else ''['' @ clock k @ ''] Unexpected error: '' @ err_str e)\<rparr>))"

section \<open>The stream job (twitch\_stream\_ingest.py)\<close>

subsection \<open>Configuration\<close>

text \<open>
  The loop of \<^verbatim>\<open>load_environment_variables\<close> over the items of \<^verbatim>\<open>required_vars\<close>, in
  the order of the dict literal. \<^verbatim>\<open>not value\<close> holds for \<^verbatim>\<open>None\<close> and for the empty string.
\<close>

fun check_required ::
  "(string \<times> string option) list \<Rightarrow> event list \<times> (py_error + (string \<times> string) list)" where
  "check_required [] = ([], Inr [])"
| "check_required ((var, value) # rest) =
     (if value = None \<or> value = Some []
      then ([Log ERROR (''Missing environment variable: '' @ var)],
            Inl (ValueError (''Environment variable '' @ var @ '' is not set'')))
      else (case check_required rest of
              (evs, Inl e) \<Rightarrow> (evs, Inl e)
            | (evs, Inr d) \<Rightarrow> (evs, Inr ((var, the value) # d))))"

text \<open>\<open>getenv\<close> is \<^verbatim>\<open>os.getenv\<close> once \<^verbatim>\<open>load_dotenv()\<close> has run.\<close>

definition load_environment_variables ::
  "(string \<Rightarrow> string option) \<Rightarrow> event list \<times> (py_error + (string \<times> string) list)" where
  "load_environment_variables getenv =
     (let required_vars =
            [(''TWITCH_CLIENT_ID'', getenv ''TWITCH_CLIENT_ID''),
             (''TWITCH_CLIENT_SECRET'', getenv ''TWITCH_CLIENT_SECRET''),
             (''SUPABASE_URL'', getenv ''SUPABASE_URL''),
             (''SUPABASE_KEY'', getenv ''SUPABASE_KEY'')]
      in check_required required_vars)"

text \<open>\<^verbatim>\<open>env_vars[k]\<close>.\<close>

definition env_item :: "(string \<times> string) list \<Rightarrow> string \<Rightarrow> py_error + string" where
  "env_item d k = (case map_of d k of None \<Rightarrow> Inl (KeyError (quoted k)) | Some v \<Rightarrow> Inr v)"

subsection \<open>Token and game identifier\<close>

text \<open>
  Every function that talks to the Twitch API takes the outcomes of the HTTP requests
  still to come, consumes the first for each request it issues, and returns its events,
  the outcomes left and its result (\<open>Inl\<close>: the exception it raises). When the outcomes
  run out before the function is done, the model says nothing: \<open>None\<close>.
\<close>

definition get_twitch_oauth_token ::
  "string \<Rightarrow> string \<Rightarrow> response list \<Rightarrow> (event list \<times> response list \<times> (py_error + json)) option" where
  "get_twitch_oauth_token client_id client_secret rs =
     (case rs of
        [] \<Rightarrow> None
      | r # rest \<Rightarrow>
          (let req = Request \<lparr>req_method = ''POST'', req_url = ''https://id.twitch.tv/oauth2/token'',
                              req_headers = [],
                              req_params = [(''client_id'', JStr client_id),
                                        (''client_secret'', JStr client_secret),
                                        (''grant_type'', JStr ''client_credentials'')]\<rparr>;
               res = (case fetch r of
                        Inl e \<Rightarrow> Inl e
                      | Inr body \<Rightarrow> dict_get body ''access_token'' JNull)
           in case res of
                Inr token \<Rightarrow> Some ([req], rest, Inr token)
              | Inl e \<Rightarrow>
                  if is_request_exception e
                  then Some ([req, Log ERROR (''Failed to obtain Twitch OAuth token: '' @ err_str e)],
                             rest, Inl e)
                  else Some ([req], rest, Inl e)))"

definition api_headers :: "(json \<Rightarrow> string) \<Rightarrow> string \<Rightarrow> json \<Rightarrow> (string \<times> string) list" where
  "api_headers repr client_id token =
     [(''Client-ID'', client_id), (''Authorization'', ''Bearer '' @ py_str repr token)]"

definition get_game_id ::
  "(json \<Rightarrow> string) \<Rightarrow> string \<Rightarrow> json \<Rightarrow> string \<Rightarrow> response list
     \<Rightarrow> (event list \<times> response list \<times> (py_error + json)) option" where
  "get_game_id repr client_id token game_name rs =
     (case rs of
        [] \<Rightarrow> None
      | r # rest \<Rightarrow>
          (let req = Request \<lparr>req_method = ''GET'', req_url = ''https://api.twitch.tv/helix/games'',
                              req_headers = api_headers repr client_id token,
                              req_params = [(''name'', JStr game_name)]\<rparr>;
               res = (case fetch r of
                        Inl e \<Rightarrow> ([], Inl e)
                      | Inr data \<Rightarrow>
                          (case dict_get data ''data'' (JArr []) of
                             Inl e \<Rightarrow> ([], Inl e)
                           | Inr games \<Rightarrow>
                               if truthy games
                               then (case subscript0 games of
                                       Inl e \<Rightarrow> ([], Inl e)
                                     | Inr g \<Rightarrow> ([], subscript g ''id''))
                               else ([Log WARNING (''No game found with name: '' @ game_name)],
                                     Inr JNull)))
           in case res of
                (evs, Inr v) \<Rightarrow> Some (req # evs, rest, Inr v)
              | (evs, Inl e) \<Rightarrow>
                  if is_request_exception e
                  then Some (req # evs @ [Log ERROR (''Failed to fetch game ID for '' @ game_name
                                                       @ '': '' @ err_str e)],
                             rest, Inr JNull)
                  else Some (req # evs, rest, Inl e)))"

subsection \<open>Pagination and filtering\<close>

text \<open>The dict literal of lines 89 to 95.\<close>

definition stream_record :: "json \<Rightarrow> py_error + json" where
  "stream_record stream =
     (case subscript stream ''user_name'' of
        Inl e \<Rightarrow> Inl e
      | Inr user_name \<Rightarrow>
          (case subscript stream ''title'' of
             Inl e \<Rightarrow> Inl e
           | Inr title \<Rightarrow>
               (case subscript stream ''viewer_count'' of
                  Inl e \<Rightarrow> Inl e
                | Inr viewer_count \<Rightarrow>
                    Inr (JObj [(''streamer_name'', user_name),
                               (''stream_title'', title),
                               (''viewer_count'', viewer_count),
                               (''game_name'', JStr ''Grand Theft Auto V''),
                               (''serverId'', JStr ''o3re8y'')]))))"

text \<open>
  The \<^verbatim>\<open>for\<close> loop of lines 87 to 95 over the entries of one page; \<open>streams\<close> is the list
  the loop appends to.
\<close>

fun filter_streams :: "string \<Rightarrow> json list \<Rightarrow> json list \<Rightarrow> py_error + json list" where
  "filter_streams keyword [] streams = Inr streams"
| "filter_streams keyword (stream # rest) streams =
     (case subscript stream ''title'' of
        Inl e \<Rightarrow> Inl e
      | Inr title \<Rightarrow>
          (case str_lower title of
             Inl e \<Rightarrow> Inl e
           | Inr t \<Rightarrow>
               if py_in (lower keyword) t
               then (case stream_record stream of
                       Inl e \<Rightarrow> Inl e
                     | Inr rec \<Rightarrow> filter_streams keyword rest (streams @ [rec]))
               else filter_streams keyword rest streams))"

text \<open>
  Lines 84 to 96, the body of the \<^verbatim>\<open>try\<close> up to the new cursor, against the outcome of
  the request: the list of matches so far and the cursor, or the exception raised.
\<close>

definition page :: "string \<Rightarrow> response \<Rightarrow> json list \<Rightarrow> py_error + (json list \<times> json)" where
  "page keyword r streams =
     (case fetch r of
        Inl e \<Rightarrow> Inl e
      | Inr data \<Rightarrow>
          (case dict_get data ''data'' (JArr []) of
             Inl e \<Rightarrow> Inl e
           | Inr entries \<Rightarrow>
               (case py_iter entries of
                  Inl e \<Rightarrow> Inl e
                | Inr items \<Rightarrow>
                    (case filter_streams keyword items streams of
                       Inl e \<Rightarrow> Inl e
                     | Inr streams' \<Rightarrow>
                         (case dict_get data ''pagination'' (JObj []) of
                            Inl e \<Rightarrow> Inl e
                          | Inr pagination \<Rightarrow>
                              (case dict_get pagination ''cursor'' JNull of
                                 Inl e \<Rightarrow> Inl e
                               | Inr cursor \<Rightarrow> Inr (streams', cursor)))))))"

text \<open>\<^verbatim>\<open>d[k] = v\<close> on a dict.\<close>

fun dict_set :: "string \<Rightarrow> 'v \<Rightarrow> (string \<times> 'v) list \<Rightarrow> (string \<times> 'v) list" where
  "dict_set k v [] = [(k, v)]"
| "dict_set k v ((k', v') # kvs) =
     (if k = k' then (k, v) # kvs else (k', v') # dict_set k v kvs)"

text \<open>
  The \<^verbatim>\<open>while True\<close> loop of \<^verbatim>\<open>get_streams\<close>: one equation per iteration. \<open>prms\<close>,
  \<open>cursor\<close> and \<open>streams\<close> are the loop's variables. Only a \<^verbatim>\<open>RequestException\<close> is
  caught; it can only come from the three lines of \<^term>\<open>fetch\<close>, before anything is
  appended to \<open>streams\<close>.
\<close>

fun get_streams_loop ::
  "(string \<times> string) list \<Rightarrow> string \<Rightarrow> (string \<times> json) list \<Rightarrow> json \<Rightarrow> json list \<Rightarrow> response list
     \<Rightarrow> (event list \<times> response list \<times> (py_error + json list)) option" where
  "get_streams_loop hdrs keyword prms cursor streams [] = None"
| "get_streams_loop hdrs keyword prms cursor streams (r # rest) =
     (let prms' = (if truthy cursor then dict_set ''after'' cursor prms else prms);
          req = Request \<lparr>req_method = ''GET'', req_url = ''https://api.twitch.tv/helix/streams'',
                         req_headers = hdrs, req_params = prms'\<rparr>
      in case page keyword r streams of
           Inl e \<Rightarrow>
             if is_request_exception e
             then Some ([req, Log ERROR (''Failed to fetch streams: '' @ err_str e)], rest, Inr streams)
             else Some ([req], rest, Inl e)
         | Inr (streams', cursor') \<Rightarrow>
             if \<not> truthy cursor' then Some ([req], rest, Inr streams')
             else (case get_streams_loop hdrs keyword prms' cursor' streams' rest of
                     None \<Rightarrow> None
                   | Some (evs, rest', res) \<Rightarrow> Some (req # Sleep # evs, rest', res)))"

definition get_streams ::
  "(json \<Rightarrow> string) \<Rightarrow> string \<Rightarrow> json \<Rightarrow> json \<Rightarrow> string \<Rightarrow> response list
     \<Rightarrow> (event list \<times> response list \<times> (py_error + json list)) option" where
  "get_streams repr client_id token game_id keyword rs =
     get_streams_loop (api_headers repr client_id token) keyword
       [(''game_id'', game_id), (''first'', JInt 100)] JNull [] rs"

subsection \<open>Persistence\<close>

text \<open>
  The \<^verbatim>\<open>for\<close> loop of \<^verbatim>\<open>log_to_supabase\<close>. \<open>db k\<close> is the outcome of the \<open>k\<close>-th insert of
  the run, counted from 0: \<open>None\<close> when the row is inserted, the text of the exception
  when the insert raises.
\<close>

definition insert_data :: "json \<Rightarrow> py_error + (string \<times> json) list" where
  "insert_data stream =
     (case subscript stream ''streamer_name'' of
        Inl e \<Rightarrow> Inl e
      | Inr a \<Rightarrow>
          (case subscript stream ''stream_title'' of
             Inl e \<Rightarrow> Inl e
           | Inr b \<Rightarrow>
               (case subscript stream ''viewer_count'' of
                  Inl e \<Rightarrow> Inl e
                | Inr c \<Rightarrow>
                    (case subscript stream ''game_name'' of
                       Inl e \<Rightarrow> Inl e
                     | Inr d \<Rightarrow>
                         (case subscript stream ''serverId'' of
                            Inl e \<Rightarrow> Inl e
                          | Inr s \<Rightarrow>
                              Inr [(''streamer_name'', a), (''stream_title'', b),
                                   (''viewer_count'', c), (''game_name'', d),
                                   (''serverId'', s)])))))"

fun insert_all :: "(nat \<Rightarrow> string option) \<Rightarrow> nat \<Rightarrow> json list \<Rightarrow> event list \<times> (py_error + unit)" where
  "insert_all db k [] = ([], Inr ())"
| "insert_all db k (stream # rest) =
     (case insert_data stream of
        Inl e \<Rightarrow> ([], Inl e)
      | Inr data \<Rightarrow>
          (case db k of
             Some m \<Rightarrow> ([], Inl (OtherException m))
           | None \<Rightarrow>
               (case insert_all db (Suc k) rest of
                  (evs, res) \<Rightarrow> (Insert ''twitch_streams'' data # evs, res))))"

text \<open>
  \<^verbatim>\<open>log_to_supabase\<close>: \<^verbatim>\<open>except Exception\<close> catches whatever the loop raises, so the
  result is the exception that leaves the function, if any.
\<close>

definition log_to_supabase ::
  "(nat \<Rightarrow> string option) \<Rightarrow> json list \<Rightarrow> event list \<times> (py_error + unit)" where
  "log_to_supabase db streams =
     (if streams = [] then ([Log INFO ''No streams to log to Supabase''], Inr ())
      else (case insert_all db 0 streams of
              (evs, Inr _) \<Rightarrow>
                (evs @ [Log INFO (''Successfully logged '' @ show_nat (length streams)
                                  @ '' streams to Supabase'')], Inr ())
            | (evs, Inl e) \<Rightarrow>
                (evs @ [Log ERROR (''Failed to log to Supabase: '' @ err_str e)], Inr ())))"

subsection \<open>The run\<close>

text \<open>
  What \<^verbatim>\<open>main\<close> meets: the environment, the outcome of \<^verbatim>\<open>create_client\<close> (\<open>None\<close>, or the
  text of the exception it raises; it issues no request), the outcomes of the HTTP
  requests in order, and the outcomes of the inserts.
\<close>

record world =
  environ :: "string \<Rightarrow> string option"
  create_client :: "string \<Rightarrow> string \<Rightarrow> string option"
  responses :: "response list"
  inserts :: "nat \<Rightarrow> string option"

text \<open>The body of the \<^verbatim>\<open>try\<close> block of \<^verbatim>\<open>main\<close>.\<close>

definition main_try :: "(json \<Rightarrow> string) \<Rightarrow> world \<Rightarrow> (event list \<times> (py_error + unit)) option" where
  "main_try repr w =
     (case load_environment_variables (environ w) of
        (ev0, Inl e) \<Rightarrow> Some (ev0, Inl e)
      | (ev0, Inr env_vars) \<Rightarrow>
     (case env_item env_vars ''TWITCH_CLIENT_ID'' of
        Inl e \<Rightarrow> Some (ev0, Inl e)
      | Inr client_id \<Rightarrow>
     (case env_item env_vars ''TWITCH_CLIENT_SECRET'' of
        Inl e \<Rightarrow> Some (ev0, Inl e)
      | Inr client_secret \<Rightarrow>
     (case env_item env_vars ''SUPABASE_URL'' of
        Inl e \<Rightarrow> Some (ev0, Inl e)
      | Inr supabase_url \<Rightarrow>
     (case env_item env_vars ''SUPABASE_KEY'' of
        Inl e \<Rightarrow> Some (ev0, Inl e)
      | Inr supabase_key \<Rightarrow>
     (case create_client w supabase_url supabase_key of
        Some m \<Rightarrow> Some (ev0, Inl (OtherException m))
      | None \<Rightarrow>
     (case get_twitch_oauth_token client_id client_secret (responses w) of
        None \<Rightarrow> None
      | Some (ev1, rs1, Inl e) \<Rightarrow> Some (ev0 @ ev1, Inl e)
      | Some (ev1, rs1, Inr token) \<Rightarrow>
     (case get_game_id repr client_id token ''Grand Theft Auto V'' rs1 of
        None \<Rightarrow> None
      | Some (ev2, rs2, Inl e) \<Rightarrow> Some (ev0 @ ev1 @ ev2, Inl e)
      | Some (ev2, rs2, Inr game_id) \<Rightarrow>
          if \<not> truthy game_id
          then Some (ev0 @ ev1 @ ev2
                     @ [Log ERROR ''Could not find game ID for Grand Theft Auto V''], Inr ())
          else
     (case get_streams repr client_id token game_id ''unscripted'' rs2 of
        None \<Rightarrow> None
      | Some (ev3, rs3, Inl e) \<Rightarrow> Some (ev0 @ ev1 @ ev2 @ ev3, Inl e)
      | Some (ev3, rs3, Inr streams) \<Rightarrow>
     (case log_to_supabase (inserts w) streams of
        (ev4, res) \<Rightarrow>
          Some (ev0 @ ev1 @ ev2 @ ev3
                @ [Log INFO (''Found '' @ show_nat (length streams) @ '' streams with ''
                             @ quoted ''unscripted'' @ '' in title'')]
                @ ev4, res)))))))))))"

text \<open>
  \<^verbatim>\<open>main\<close>: whatever the body raises is logged and the run ends. The run is its events.
\<close>

definition main :: "(json \<Rightarrow> string) \<Rightarrow> world \<Rightarrow> event list option" where
  "main repr w =
     (case main_try repr w of
        None \<Rightarrow> None
      | Some (evs, Inr _) \<Rightarrow> Some evs
      | Some (evs, Inl e) \<Rightarrow> Some (evs @ [Log ERROR (''An error occurred in main: '' @ err_str e)]))"

section \<open>Notions used to state the properties\<close>

text \<open>The requests a run issued and the rows it inserted, read off its events.\<close>

fun requests_of :: "event list \<Rightarrow> request list" where
  "requests_of [] = []"
| "requests_of (Request q # evs) = q # requests_of evs"
| "requests_of (ev # evs) = requests_of evs"

fun inserts_of :: "event list \<Rightarrow> (string \<times> (string \<times> json) list) list" where
  "inserts_of [] = []"
| "inserts_of (Insert t row # evs) = (t, row) # inserts_of evs"
| "inserts_of (ev # evs) = inserts_of evs"

definition streams_requests :: "event list \<Rightarrow> request list" where
  "streams_requests evs =
     filter (\<lambda>q. req_url q = ''https://api.twitch.tv/helix/streams'') (requests_of evs)"

text \<open>
  A page response after which the loop of \<^verbatim>\<open>get_streams\<close> goes on: the request and the
  processing of the page raise nothing and the cursor is true. The matches of a page
  are the records its entries add to the list.
\<close>

definition page_continues :: "string \<Rightarrow> response \<Rightarrow> bool" where
  "page_continues keyword r =
     (case page keyword r [] of Inl e \<Rightarrow> False | Inr (s, c) \<Rightarrow> truthy c)"

definition page_matches :: "string \<Rightarrow> response \<Rightarrow> json list" where
  "page_matches keyword r =
     (case page keyword r [] of Inl e \<Rightarrow> [] | Inr (s, c) \<Rightarrow> s)"

text \<open>
  The pagination cursor that a response carries: the value at \<^verbatim>\<open>pagination.cursor\<close> of
  its decoded body, \<^verbatim>\<open>None\<close> when there is no such value.
\<close>

definition response_cursor :: "response \<Rightarrow> json" where
  "response_cursor r =
     (case fetch r of
        Inl e \<Rightarrow> JNull
      | Inr data \<Rightarrow>
          (case dict_get data ''pagination'' (JObj []) of
             Inl e \<Rightarrow> JNull
           | Inr pagination \<Rightarrow>
               (case dict_get pagination ''cursor'' JNull of Inl e \<Rightarrow> JNull | Inr c \<Rightarrow> c)))"

text \<open>A request that raises a \<^verbatim>\<open>RequestException\<close>: what the claims call a transport error.\<close>

definition transport_error :: "response \<Rightarrow> bool" where
  "transport_error r = (case fetch r of Inl e \<Rightarrow> True | Inr v \<Rightarrow> False)"

text \<open>
  The four required values are set, \<open>client_id\<close> and \<open>client_secret\<close> being the first
  two, and \<^verbatim>\<open>create_client\<close> raises nothing.
\<close>

definition configured :: "world \<Rightarrow> string \<Rightarrow> string \<Rightarrow> bool" where
  "configured w client_id client_secret =
     (environ w ''TWITCH_CLIENT_ID'' = Some client_id \<and> client_id \<noteq> [] \<and>
      environ w ''TWITCH_CLIENT_SECRET'' = Some client_secret \<and> client_secret \<noteq> [] \<and>
      (case environ w ''SUPABASE_URL'' of
         None \<Rightarrow> False
       | Some supabase_url \<Rightarrow>
           supabase_url \<noteq> [] \<and>
           (case environ w ''SUPABASE_KEY'' of
              None \<Rightarrow> False
            | Some supabase_key \<Rightarrow>
                supabase_key \<noteq> [] \<and> create_client w supabase_url supabase_key = None)))"

text \<open>The keys of \<^verbatim>\<open>required_vars\<close>.\<close>

definition required_names :: "string list" where
  "required_names = [''TWITCH_CLIENT_ID'', ''TWITCH_CLIENT_SECRET'', ''SUPABASE_URL'', ''SUPABASE_KEY'']"

text \<open>A games-lookup response that decodes and holds no result: no list or an empty one.\<close>

definition no_results :: "response \<Rightarrow> bool" where
  "no_results r =
     (case fetch r of
        Inl e \<Rightarrow> False
      | Inr data \<Rightarrow>
          (case dict_get data ''data'' (JArr []) of Inl e \<Rightarrow> False | Inr games \<Rightarrow> \<not> truthy games))"

text \<open>The two requests that come before the pagination.\<close>

definition token_request :: "string \<Rightarrow> string \<Rightarrow> request" where
  "token_request client_id client_secret =
     \<lparr>req_method = ''POST'', req_url = ''https://id.twitch.tv/oauth2/token'', req_headers = [],
      req_params = [(''client_id'', JStr client_id), (''client_secret'', JStr client_secret),
                    (''grant_type'', JStr ''client_credentials'')]\<rparr>"

definition games_request :: "(json \<Rightarrow> string) \<Rightarrow> string \<Rightarrow> json \<Rightarrow> string \<Rightarrow> request" where
  "games_request repr client_id token game_name =
     \<lparr>req_method = ''GET'', req_url = ''https://api.twitch.tv/helix/games'',
      req_headers = api_headers repr client_id token,
      req_params = [(''name'', JStr game_name)]\<rparr>"

text \<open>The records that \<^verbatim>\<open>get_streams\<close> builds, and the row of such a record.\<close>

fun is_record :: "json \<Rightarrow> bool" where
  "is_record (JObj kvs) =
     (map fst kvs = [''streamer_name'', ''stream_title'', ''viewer_count'', ''game_name'', ''serverId''])"
| "is_record v = False"

fun row_of :: "json \<Rightarrow> (string \<times> json) list" where
  "row_of (JObj kvs) = kvs"
| "row_of v = []"

text \<open>
  What the loop of \<^verbatim>\<open>get_streams\<close> returns when it stops at the response \<open>r\<close> with the
  list \<open>acc\<close> of matches so far.
\<close>

definition loop_result :: "string \<Rightarrow> json list \<Rightarrow> response \<Rightarrow> py_error + json list" where
  "loop_result kw acc r =
     (case page kw r acc of
        Inl e \<Rightarrow> if is_request_exception e then Inr acc else Inl e
      | Inr (s, c) \<Rightarrow> Inr s)"

section \<open>Example runs\<close>

text \<open>A configured run whose games lookup finds nothing.\<close>

definition world_no_game :: world where
  "world_no_game =
     \<lparr>environ = [''TWITCH_CLIENT_ID'' \<mapsto> ''id'', ''TWITCH_CLIENT_SECRET'' \<mapsto> ''secret'',
                 ''SUPABASE_URL'' \<mapsto> ''https://db'', ''SUPABASE_KEY'' \<mapsto> ''key''],
      create_client = (\<lambda>u k. None),
      responses = [Response 200 ''OK'' ''https://id.twitch.tv/oauth2/token''
                     (Inr (JObj [(''access_token'', JStr ''tok'')])),
                   Response 200 ''OK'' ''https://api.twitch.tv/helix/games''
                     (Inr (JObj [(''data'', JArr [])]))],
      inserts = (\<lambda>k. None)\<rparr>"

text \<open>
  A configured run whose token response has no \<^verbatim>\<open>access_token\<close> and whose games lookup is
  refused.
\<close>

definition world_no_token :: world where
  "world_no_token =
     \<lparr>environ = [''TWITCH_CLIENT_ID'' \<mapsto> ''id'', ''TWITCH_CLIENT_SECRET'' \<mapsto> ''secret'',
                 ''SUPABASE_URL'' \<mapsto> ''https://db'', ''SUPABASE_KEY'' \<mapsto> ''key''],
      create_client = (\<lambda>u k. None),
      responses = [Response 200 ''OK'' ''https://id.twitch.tv/oauth2/token''
                     (Inr (JObj [(''token_type'', JStr ''bearer'')])),
                   Response 401 ''Unauthorized'' ''https://api.twitch.tv/helix/games?name=Grand+Theft+Auto+V''
                     (Inr (JObj [(''error'', JStr ''Unauthorized'')]))],
      inserts = (\<lambda>k. None)\<rparr>"

text \<open>Two records as \<^verbatim>\<open>get_streams\<close> builds them.\<close>

definition alice :: json where
  "alice = JObj [(''streamer_name'', JStr ''Alice''), (''stream_title'', JStr ''Epic Unscripted RP''),
                 (''viewer_count'', JInt 42), (''game_name'', JStr ''Grand Theft Auto V''),
                 (''serverId'', JStr ''o3re8y'')]"

definition carol :: json where
  "carol = JObj [(''streamer_name'', JStr ''Carol''), (''stream_title'', JStr ''UNSCRIPTED night''),
                 (''viewer_count'', JInt 7), (''game_name'', JStr ''Grand Theft Auto V''),
                 (''serverId'', JStr ''o3re8y'')]"

text \<open>
  A configured run that gets its token and its game identifier, a first page with one
  match and a cursor, and no response to the request for the second page.
\<close>

definition token_ok :: response where
  "token_ok = Response 200 ''OK'' ''https://id.twitch.tv/oauth2/token''
                (Inr (JObj [(''access_token'', JStr ''tok'')]))"

definition game_ok :: response where
  "game_ok = Response 200 ''OK'' ''https://api.twitch.tv/helix/games''
               (Inr (JObj [(''data'', JArr [JObj [(''id'', JStr ''32982'')]])]))"

definition page_one :: response where
  "page_one = Response 200 ''OK'' ''https://api.twitch.tv/helix/streams''
     (Inr (JObj [(''data'', JArr [JObj [(''title'', JStr ''Epic Unscripted RP''),
                                         (''user_name'', JStr ''Alice''),
                                         (''viewer_count'', JInt 42)]]),
                 (''pagination'', JObj [(''cursor'', JStr ''abc'')])]))"

definition world_page_two_fails :: world where
  "world_page_two_fails =
     \<lparr>environ = [''TWITCH_CLIENT_ID'' \<mapsto> ''id'', ''TWITCH_CLIENT_SECRET'' \<mapsto> ''secret'',
                 ''SUPABASE_URL'' \<mapsto> ''https://db'', ''SUPABASE_KEY'' \<mapsto> ''key''],
      create_client = (\<lambda>u k. None),
      responses = [token_ok, game_ok, page_one, NoResponse ''Connection reset''],
      inserts = (\<lambda>k. None)\<rparr>"

text \<open>The same run, with a second page whose only entry has no title.\<close>

definition page_without_title :: response where
  "page_without_title = Response 200 ''OK'' ''https://api.twitch.tv/helix/streams''
     (Inr (JObj [(''data'', JArr [JObj [(''user_name'', JStr ''Bob''), (''viewer_count'', JInt 5)]]),
                 (''pagination'', JObj [])]))"

definition world_missing_title :: world where
  "world_missing_title =
     \<lparr>environ = [''TWITCH_CLIENT_ID'' \<mapsto> ''id'', ''TWITCH_CLIENT_SECRET'' \<mapsto> ''secret'',
                 ''SUPABASE_URL'' \<mapsto> ''https://db'', ''SUPABASE_KEY'' \<mapsto> ''key''],
      create_client = (\<lambda>u k. None),
      responses = [token_ok, game_ok, page_one, page_without_title],
      inserts = (\<lambda>k. None)\<rparr>"

section \<open>Properties\<close>

subsection \<open>Basic facts\<close>

lemma starts_with_iff: "starts_with xs ys \<longleftrightarrow> (\<exists>ss. ys = xs @ ss)"
  by (induction xs ys rule: starts_with.induct) auto

lemma py_in_iff: "py_in xs ys \<longleftrightarrow> (\<exists>ps ss. ys = ps @ xs @ ss)"
proof (induction ys)
  case Nil
  then show ?case by auto
next
  case (Cons y ys)
  show ?case
  proof
    assume "py_in xs (y # ys)"
    then consider "starts_with xs (y # ys)" | "py_in xs ys" by auto
    then show "\<exists>ps ss. y # ys = ps @ xs @ ss"
    proof cases
      case 1
      then obtain ss where "y # ys = xs @ ss" by (auto simp: starts_with_iff)
      then have "y # ys = [] @ xs @ ss" by simp
      then show ?thesis by blast
    next
      case 2
      then obtain ps ss where "ys = ps @ xs @ ss" using Cons.IH by blast
      then have "y # ys = (y # ps) @ xs @ ss" by simp
      then show ?thesis by blast
    qed
  next
    assume "\<exists>ps ss. y # ys = ps @ xs @ ss"
    then obtain ps ss where eq: "y # ys = ps @ xs @ ss" by blast
    show "py_in xs (y # ys)"
    proof (cases ps)
      case Nil
      with eq have "starts_with xs (y # ys)" by (auto simp: starts_with_iff)
      then show ?thesis by simp
    next
      case (Cons p ps')
      with eq have "ys = ps' @ xs @ ss" by simp
      then have "py_in xs ys" using Cons.IH by blast
      then show ?thesis by simp
    qed
  qed
qed

lemma fetch_error: "fetch r = Inl e \<Longrightarrow> is_request_exception e"
  by (cases r) (auto simp: raise_for_status_def split: if_splits sum.splits)

lemma dict_get_error: "dict_get v k d = Inl e \<Longrightarrow> \<not> is_request_exception e"
  by (cases v) (auto simp: no_attribute_def)

lemma subscript_error: "subscript v k = Inl e \<Longrightarrow> \<not> is_request_exception e"
  by (cases v) (auto split: option.splits)

subsection \<open>The player-count job\<close>

lemma extract_player_count_JObj:
  "extract_player_count (JObj kvs) =
     (case map_of kvs ''Data'' of
        None \<Rightarrow> Inr (JInt 0)
      | Some (JObj inner) \<Rightarrow>
          Inr (case map_of inner ''selfReportedClients'' of None \<Rightarrow> JInt 0 | Some v \<Rightarrow> v)
      | Some d \<Rightarrow> Inl (no_attribute d ''get''))"
  by (simp add: extract_player_count_def split: option.splits json.splits)

lemma extract_error: "extract_player_count data = Inl e \<Longrightarrow> \<not> is_request_exception e"
  by (auto simp: extract_player_count_def split: sum.splits dest: dict_get_error)

lemma do_GET_cases:
  "do_GET repr clock resp db =
     (case fetch resp of
        Inl e \<Rightarrow>
          ([api_request],
           \<lparr>reply_status = 500, reply_headers = [(''Content-type'', ''text/plain'')],
            reply_body = ''['' @ clock 0 @ ''] API request error: '' @ err_str e\<rparr>)
      | Inr data \<Rightarrow>
          (case extract_player_count data of
             Inl e \<Rightarrow>
               ([api_request],
                \<lparr>reply_status = 500, reply_headers = [(''Content-type'', ''text/plain'')],
                 reply_body = ''['' @ clock 0 @ ''] Unexpected error: '' @ err_str e\<rparr>)
           | Inr c \<Rightarrow>
               (case db of
                  Some m \<Rightarrow>
                    ([api_request],
                     \<lparr>reply_status = 500, reply_headers = [(''Content-type'', ''text/plain'')],
                      reply_body = ''['' @ clock 1 @ ''] Unexpected error: '' @ m\<rparr>)
                | None \<Rightarrow>
                    ([api_request,
                      Insert ''player_counts'' [(''timestamp'', JStr (clock 0)), (''player_count'', c),
                                                (''server_id'', JStr ''o3re8y'')]],
                     \<lparr>reply_status = 200, reply_headers = [(''Content-type'', ''text/plain'')],
                      reply_body = ''['' @ clock 0 @ ''] Successfully saved player count: ''
                                   @ py_str repr c\<rparr>))))"
proof (cases "fetch resp")
  case (Inl e)
  then have "is_request_exception e" by (rule fetch_error)
  with Inl show ?thesis by (simp add: do_GET_def do_GET_try_def)
next
  case data: (Inr data)
  show ?thesis
  proof (cases "extract_player_count data")
    case (Inl e)
    then have "\<not> is_request_exception e" by (rule extract_error)
    with data Inl show ?thesis by (simp add: do_GET_def do_GET_try_def)
  next
    case (Inr c)
    with data show ?thesis
      by (cases db) (simp_all add: do_GET_def do_GET_try_def Let_def)
  qed
qed

lemma raise_for_status_passes:
  "\<not> (400 \<le> st \<and> st < 600) \<Longrightarrow> raise_for_status st reason u = Inr ()"
  by (cases "st < 500") (simp_all add: raise_for_status_def)

lemma fetch_raises:
  "raise_for_status st reason u = Inl e \<Longrightarrow> fetch (Response st reason u b) = Inl e"
  by simp

lemma fetch_decoded:
  "\<not> (400 \<le> st \<and> st < 600) \<Longrightarrow> fetch (Response st reason u (Inr v)) = Inr v"
  by (simp add: raise_for_status_passes)

lemma fetch_undecoded:
  "\<not> (400 \<le> st \<and> st < 600) \<Longrightarrow>
     fetch (Response st reason u (Inl m)) = Inl (RequestException m)"
  by (simp add: raise_for_status_passes)

lemma raise_for_status_raises:
  "400 \<le> st \<and> st < 600 \<Longrightarrow> \<exists>e. raise_for_status st reason u = Inl e"
  by (cases "st < 500") (simp_all add: raise_for_status_def)

text \<open>
  Claim C1, as stated, at the body \<^verbatim>\<open>{"Data": null}\<close>: a JSON object in which
  \<^verbatim>\<open>selfReportedClients\<close> is absent. The extraction does not return 0: \<^verbatim>\<open>None\<close> has no
  method \<^verbatim>\<open>get\<close>, and the second \<^verbatim>\<open>.get\<close> raises \<^verbatim>\<open>AttributeError\<close>.
\<close>

theorem extract_absent_Data_not_object:
  "extract_player_count (JObj [(''Data'', JNull)]) = Inl (no_attribute JNull ''get'')
   \<and> extract_player_count (JObj [(''Data'', JNull)]) \<noteq> Inr (JInt 0)"
  by (simp add: extract_player_count_def)

text \<open>
  Claim C1, amended: for a response body that is a JSON object, the extraction returns 0
  when the key \<^verbatim>\<open>Data\<close> is absent, and when \<^verbatim>\<open>Data\<close> is an object without the key
  \<^verbatim>\<open>selfReportedClients\<close>; it returns the value at \<^verbatim>\<open>Data.selfReportedClients\<close> when
  \<^verbatim>\<open>Data\<close> is an object with that key; and when \<^verbatim>\<open>Data\<close> is present and is not an object
  it raises \<^verbatim>\<open>AttributeError\<close> instead of returning 0, which the handler, for a
  response whose status is not from 400 to 599, turns into a 500 reply with the body
  \<^verbatim>\<open>[timestamp] Unexpected error:\<close> and the description of the error.
\<close>

theorem extract_player_count_object:
  "(map_of kvs ''Data'' = None \<longrightarrow> extract_player_count (JObj kvs) = Inr (JInt 0))
   \<and> (map_of kvs ''Data'' = Some (JObj inner) \<and> map_of inner ''selfReportedClients'' = None
        \<longrightarrow> extract_player_count (JObj kvs) = Inr (JInt 0))
   \<and> (map_of kvs ''Data'' = Some (JObj inner) \<and> map_of inner ''selfReportedClients'' = Some v
        \<longrightarrow> extract_player_count (JObj kvs) = Inr v)
   \<and> (map_of kvs ''Data'' = Some d \<and> (\<forall>inner. d \<noteq> JObj inner)
        \<longrightarrow> extract_player_count (JObj kvs) = Inl (no_attribute d ''get''))
   \<and> (map_of kvs ''Data'' = Some d \<and> (\<forall>inner. d \<noteq> JObj inner) \<and> \<not> (400 \<le> st \<and> st < 600)
        \<longrightarrow> do_GET repr clock (Response st reason u (Inr (JObj kvs))) db =
              ([api_request],
               \<lparr>reply_status = 500, reply_headers = [(''Content-type'', ''text/plain'')],
                reply_body = ''['' @ clock 0 @ ''] Unexpected error: ''
                             @ err_str (no_attribute d ''get'')\<rparr>))"
proof -
  have e: "extract_player_count (JObj kvs) = Inl (no_attribute d ''get'')"
    if "map_of kvs ''Data'' = Some d \<and> (\<forall>inner. d \<noteq> JObj inner)"
    using that by (cases d) (simp_all add: extract_player_count_JObj)
  have "do_GET repr clock (Response st reason u (Inr (JObj kvs))) db =
              ([api_request],
               \<lparr>reply_status = 500, reply_headers = [(''Content-type'', ''text/plain'')],
                reply_body = ''['' @ clock 0 @ ''] Unexpected error: ''
                             @ err_str (no_attribute d ''get'')\<rparr>)"
    if "map_of kvs ''Data'' = Some d \<and> (\<forall>inner. d \<noteq> JObj inner) \<and> \<not> (400 \<le> st \<and> st < 600)"
  proof -
    from that have "\<not> (400 \<le> st \<and> st < 600)" by blast
    then have "fetch (Response st reason u (Inr (JObj kvs))) = Inr (JObj kvs)"
      by (rule fetch_decoded)
    with that e show ?thesis by (simp add: do_GET_cases del: fetch.simps)
  qed
  with e show ?thesis by (simp add: extract_player_count_JObj)
qed

theorem extract_player_count_object_witness:
  "extract_player_count (JObj [(''EndPoint'', JStr ''o3re8y'')]) = Inr (JInt 0)
   \<and> extract_player_count (JObj [(''Data'', JObj [(''hostname'', JStr ''rp'')])]) = Inr (JInt 0)
   \<and> extract_player_count (JObj [(''Data'', JObj [(''selfReportedClients'', JInt 187)])]) = Inr (JInt 187)
   \<and> extract_player_count (JObj [(''Data'', JArr [])]) = Inl (no_attribute (JArr []) ''get'')
   \<and> do_GET (\<lambda>v. []) (\<lambda>k. ''2025-01-01T00:00:00'')
        (Response 200 ''OK'' API_URL (Inr (JObj [(''Data'', JNull)]))) None =
       ([api_request],
        \<lparr>reply_status = 500, reply_headers = [(''Content-type'', ''text/plain'')],
         reply_body = ''[2025-01-01T00:00:00] Unexpected error: ''
                      @ quoted ''NoneType'' @ '' object has no attribute '' @ quoted ''get''\<rparr>)"
  using extract_player_count_object [of "[(''EndPoint'', JStr ''o3re8y'')]"]
    extract_player_count_object [of "[(''Data'', JObj [(''hostname'', JStr ''rp'')])]" "[(''hostname'', JStr ''rp'')]"]
    extract_player_count_object [of "[(''Data'', JObj [(''selfReportedClients'', JInt 187)])]"
       "[(''selfReportedClients'', JInt 187)]" "JInt 187"]
    extract_player_count_object [of "[(''Data'', JArr [])]" _ _ "JArr []"]
    extract_player_count_object [where kvs = "[(''Data'', JNull)]" and d = JNull and st = 200
       and reason = "''OK''" and u = API_URL and repr = "\<lambda>v. []"
       and clock = "\<lambda>k. ''2025-01-01T00:00:00''" and db = None]
  by (simp add: no_attribute_def)

text \<open>
  Claim C6, as stated, at an upstream response with status 300 and a body that decodes:
  the status is not 2xx, yet \<^verbatim>\<open>raise_for_status\<close> does not raise, the count is saved and
  the handler answers 200.
\<close>

theorem do_GET_status_300_succeeds:
  "do_GET (\<lambda>v. []) (\<lambda>k. ''2025-01-01T00:00:00'')
     (Response 300 ''Multiple Choices'' API_URL
        (Inr (JObj [(''Data'', JObj [(''selfReportedClients'', JInt 7)])]))) None
   = ([api_request,
       Insert ''player_counts'' [(''timestamp'', JStr ''2025-01-01T00:00:00''),
                                 (''player_count'', JInt 7), (''server_id'', JStr ''o3re8y'')]],
      \<lparr>reply_status = 200, reply_headers = [(''Content-type'', ''text/plain'')],
       reply_body = ''[2025-01-01T00:00:00] Successfully saved player count: 7''\<rparr>)"
  by (simp add: do_GET_def do_GET_try_def raise_for_status_def extract_player_count_def
      show_int_def digit_def)

text \<open>
  Claim C6, amended: for every invocation of the player-count handler, an upstream
  response with a status from 400 to 599 yields a failure-status (500) reply whose body
  contains the word \<^verbatim>\<open>error\<close> and a timestamp, and an upstream response with any other
  status, 2xx or not, with a body that decodes, from which the count is extracted, and a
  successful insert, yields a success-status (200) reply whose body contains the
  timestamp and the extracted count. On any request failure (no response, a status from
  400 to 599, a body that does not decode) the reply is a 500 with the body
  \<^verbatim>\<open>[timestamp] API request error:\<close> and the description of the error; on any unexpected
  error (the extraction raises, the insert raises) the reply is a 500 with the body
  \<^verbatim>\<open>[timestamp] Unexpected error:\<close> and the description of the error. These cases are all
  the cases: every reply is determined.
\<close>

theorem do_GET_replies:
  "(400 \<le> st \<and> st < 600 \<longrightarrow>
      (\<exists>e. raise_for_status st reason u = Inl e \<and>
        do_GET repr clock (Response st reason u b) db =
          ([api_request],
           \<lparr>reply_status = 500, reply_headers = [(''Content-type'', ''text/plain'')],
            reply_body = ''['' @ clock 0 @ ''] API request error: '' @ err_str e\<rparr>)))
   \<and> do_GET repr clock (NoResponse m) db =
          ([api_request],
           \<lparr>reply_status = 500, reply_headers = [(''Content-type'', ''text/plain'')],
            reply_body = ''['' @ clock 0 @ ''] API request error: '' @ m\<rparr>)
   \<and> (\<not> (400 \<le> st \<and> st < 600) \<and> extract_player_count data = Inr c \<longrightarrow>
        do_GET repr clock (Response st reason u (Inr data)) None =
          ([api_request,
            Insert ''player_counts'' [(''timestamp'', JStr (clock 0)), (''player_count'', c),
                                      (''server_id'', JStr ''o3re8y'')]],
           \<lparr>reply_status = 200, reply_headers = [(''Content-type'', ''text/plain'')],
            reply_body = ''['' @ clock 0 @ ''] Successfully saved player count: '' @ py_str repr c\<rparr>))
   \<and> (reply_status (snd (do_GET repr clock resp db)) = 200 \<or>
        reply_status (snd (do_GET repr clock resp db)) = 500 \<and>
        (\<exists>k e. k \<le> 1 \<and>
                (reply_body (snd (do_GET repr clock resp db)) =
                   ''['' @ clock k @ ''] API request error: '' @ err_str e
                 \<or> reply_body (snd (do_GET repr clock resp db)) =
                   ''['' @ clock k @ ''] Unexpected error: '' @ err_str e)))
   \<and> (\<not> (400 \<le> st \<and> st < 600) \<longrightarrow>
        do_GET repr clock (Response st reason u (Inl m)) db =
          ([api_request],
           \<lparr>reply_status = 500, reply_headers = [(''Content-type'', ''text/plain'')],
            reply_body = ''['' @ clock 0 @ ''] API request error: '' @ m\<rparr>))
   \<and> (\<not> (400 \<le> st \<and> st < 600) \<and> extract_player_count data = Inl x \<longrightarrow>
        do_GET repr clock (Response st reason u (Inr data)) db =
          ([api_request],
           \<lparr>reply_status = 500, reply_headers = [(''Content-type'', ''text/plain'')],
            reply_body = ''['' @ clock 0 @ ''] Unexpected error: '' @ err_str x\<rparr>))
   \<and> (\<not> (400 \<le> st \<and> st < 600) \<and> extract_player_count data = Inr c \<longrightarrow>
        do_GET repr clock (Response st reason u (Inr data)) (Some m) =
          ([api_request],
           \<lparr>reply_status = 500, reply_headers = [(''Content-type'', ''text/plain'')],
            reply_body = ''['' @ clock 1 @ ''] Unexpected error: '' @ m\<rparr>))"
proof -
  have c1: "\<exists>e. raise_for_status st reason u = Inl e \<and>
        do_GET repr clock (Response st reason u b) db =
          ([api_request],
           \<lparr>reply_status = 500, reply_headers = [(''Content-type'', ''text/plain'')],
            reply_body = ''['' @ clock 0 @ ''] API request error: '' @ err_str e\<rparr>)"
    if st: "400 \<le> st \<and> st < 600"
  proof -
    from raise_for_status_raises [OF st] obtain e where "raise_for_status st reason u = Inl e"
      by blast
    then show ?thesis by (simp add: do_GET_cases fetch_raises del: fetch.simps)
  qed
  have c2: "do_GET repr clock (NoResponse m) db =
          ([api_request],
           \<lparr>reply_status = 500, reply_headers = [(''Content-type'', ''text/plain'')],
            reply_body = ''['' @ clock 0 @ ''] API request error: '' @ m\<rparr>)"
    by (simp add: do_GET_cases)
  have c4: "reply_status (snd (do_GET repr clock resp db)) = 200 \<or>
        reply_status (snd (do_GET repr clock resp db)) = 500 \<and>
        (\<exists>k e. k \<le> 1 \<and>
                (reply_body (snd (do_GET repr clock resp db)) =
                   ''['' @ clock k @ ''] API request error: '' @ err_str e
                 \<or> reply_body (snd (do_GET repr clock resp db)) =
                   ''['' @ clock k @ ''] Unexpected error: '' @ err_str e))"
  proof (cases "fetch resp")
    case (Inl e)
    then have "reply_body (snd (do_GET repr clock resp db)) =
                   ''['' @ clock 0 @ ''] API request error: '' @ err_str e"
      "reply_status (snd (do_GET repr clock resp db)) = 500"
      by (simp_all add: do_GET_cases)
    then show ?thesis by blast
  next
    case data: (Inr data')
    show ?thesis
    proof (cases "extract_player_count data'")
      case (Inl e)
      with data have "reply_body (snd (do_GET repr clock resp db)) =
                   ''['' @ clock 0 @ ''] Unexpected error: '' @ err_str e"
        "reply_status (snd (do_GET repr clock resp db)) = 500"
        by (simp_all add: do_GET_cases)
      then show ?thesis by blast
    next
      case (Inr c')
      show ?thesis
      proof (cases db)
        case None
        with data Inr show ?thesis by (simp add: do_GET_cases)
      next
        case (Some m')
        with data Inr have "reply_body (snd (do_GET repr clock resp db)) =
                   ''['' @ clock 1 @ ''] Unexpected error: '' @ err_str (OtherException m')"
          "reply_status (snd (do_GET repr clock resp db)) = 500"
          by (simp_all add: do_GET_cases)
        then show ?thesis by (meson le_refl)
      qed
    qed
  qed
  have c3: "do_GET repr clock (Response st reason u (Inr data)) None =
          ([api_request,
            Insert ''player_counts'' [(''timestamp'', JStr (clock 0)), (''player_count'', c),
                                      (''server_id'', JStr ''o3re8y'')]],
           \<lparr>reply_status = 200, reply_headers = [(''Content-type'', ''text/plain'')],
            reply_body = ''['' @ clock 0 @ ''] Successfully saved player count: '' @ py_str repr c\<rparr>)"
    if "\<not> (400 \<le> st \<and> st < 600) \<and> extract_player_count data = Inr c"
    using that fetch_decoded [of st reason u data]
    by (simp add: do_GET_cases del: fetch.simps)
  have c5: "do_GET repr clock (Response st reason u (Inl m)) db =
          ([api_request],
           \<lparr>reply_status = 500, reply_headers = [(''Content-type'', ''text/plain'')],
            reply_body = ''['' @ clock 0 @ ''] API request error: '' @ m\<rparr>)"
    if "\<not> (400 \<le> st \<and> st < 600)"
    using that fetch_undecoded [of st reason u m]
    by (simp add: do_GET_cases del: fetch.simps)
  have c6: "do_GET repr clock (Response st reason u (Inr data)) db =
          ([api_request],
           \<lparr>reply_status = 500, reply_headers = [(''Content-type'', ''text/plain'')],
            reply_body = ''['' @ clock 0 @ ''] Unexpected error: '' @ err_str x\<rparr>)"
    if "\<not> (400 \<le> st \<and> st < 600) \<and> extract_player_count data = Inl x"
    using that fetch_decoded [of st reason u data]
    by (simp add: do_GET_cases del: fetch.simps)
  have c7: "do_GET repr clock (Response st reason u (Inr data)) (Some m) =
          ([api_request],
           \<lparr>reply_status = 500, reply_headers = [(''Content-type'', ''text/plain'')],
            reply_body = ''['' @ clock 1 @ ''] Unexpected error: '' @ m\<rparr>)"
    if "\<not> (400 \<le> st \<and> st < 600) \<and> extract_player_count data = Inr c"
    using that fetch_decoded [of st reason u data]
    by (simp add: do_GET_cases del: fetch.simps)
  from c1 c2 c3 c4 c5 c6 c7 show ?thesis by blast
qed

theorem do_GET_replies_witness:
  "do_GET (\<lambda>v. []) (\<lambda>k. ''2025-01-01T00:00:00'')
      (Response 404 ''Not Found'' API_URL (Inl ''Expecting value'')) None
     = ([api_request],
        \<lparr>reply_status = 500, reply_headers = [(''Content-type'', ''text/plain'')],
         reply_body = ''[2025-01-01T00:00:00] API request error: 404 Client Error: Not Found for url: '' @ API_URL\<rparr>)
   \<and> do_GET (\<lambda>v. []) (\<lambda>k. ''2025-01-01T00:00:00'')
      (Response 200 ''OK'' API_URL (Inr (JObj [(''Data'', JObj [(''selfReportedClients'', JInt 187)])]))) None
     = ([api_request,
         Insert ''player_counts'' [(''timestamp'', JStr ''2025-01-01T00:00:00''),
                                   (''player_count'', JInt 187), (''server_id'', JStr ''o3re8y'')]],
        \<lparr>reply_status = 200, reply_headers = [(''Content-type'', ''text/plain'')],
         reply_body = ''[2025-01-01T00:00:00] Successfully saved player count: 187''\<rparr>)
   \<and> do_GET (\<lambda>v. []) (\<lambda>k. if k = 0 then ''2025-01-01T00:00:00'' else ''2025-01-01T00:00:01'')
      (Response 200 ''OK'' API_URL (Inr (JObj [(''Data'', JObj [(''selfReportedClients'', JInt 187)])])))
      (Some ''connection timed out'')
     = ([api_request],
        \<lparr>reply_status = 500, reply_headers = [(''Content-type'', ''text/plain'')],
         reply_body = ''[2025-01-01T00:00:01] Unexpected error: connection timed out''\<rparr>)
   \<and> do_GET (\<lambda>v. []) (\<lambda>k. ''2025-01-01T00:00:00'')
      (Response 200 ''OK'' API_URL (Inr (JArr []))) None
     = ([api_request],
        \<lparr>reply_status = 500, reply_headers = [(''Content-type'', ''text/plain'')],
         reply_body = ''[2025-01-01T00:00:00] Unexpected error: '' @ err_str (no_attribute (JArr []) ''get'')\<rparr>)"
  using do_GET_replies [where st = 404 and reason = "''Not Found''" and u = API_URL
      and repr = "\<lambda>v. []" and clock = "\<lambda>k. ''2025-01-01T00:00:00''"
      and b = "Inl ''Expecting value''" and db = None]
    do_GET_replies [where st = 200 and reason = "''OK''" and u = API_URL
      and repr = "\<lambda>v. []" and clock = "\<lambda>k. ''2025-01-01T00:00:00''"
      and data = "JObj [(''Data'', JObj [(''selfReportedClients'', JInt 187)])]" and c = "JInt 187"]
    do_GET_replies [where st = 200 and reason = "''OK''" and u = API_URL
      and repr = "\<lambda>v. []"
      and clock = "\<lambda>k. if k = 0 then ''2025-01-01T00:00:00'' else ''2025-01-01T00:00:01''"
      and data = "JObj [(''Data'', JObj [(''selfReportedClients'', JInt 187)])]" and c = "JInt 187"
      and m = "''connection timed out''"]
    do_GET_replies [where st = 200 and reason = "''OK''" and u = API_URL
      and repr = "\<lambda>v. []" and clock = "\<lambda>k. ''2025-01-01T00:00:00''"
      and data = "JArr []" and x = "no_attribute (JArr []) ''get''" and db = None]
  by (simp add: raise_for_status_def extract_player_count_def show_int_def digit_def API_URL_def)

subsection \<open>The pagination loop\<close>

lemma str_lower_error: "str_lower v = Inl e \<Longrightarrow> \<not> is_request_exception e"
  by (cases v) (auto simp: no_attribute_def)

lemma py_iter_error: "py_iter v = Inl e \<Longrightarrow> \<not> is_request_exception e"
  by (cases v) auto

lemma stream_record_error: "stream_record v = Inl e \<Longrightarrow> \<not> is_request_exception e"
  by (auto simp: stream_record_def split: sum.splits dest: subscript_error)

lemma stream_record_is_record: "stream_record v = Inr s \<Longrightarrow> is_record s"
  by (auto simp: stream_record_def split: sum.splits)

lemma filter_streams_acc:
  "filter_streams kw items acc =
     (case filter_streams kw items [] of Inl e \<Rightarrow> Inl e | Inr s \<Rightarrow> Inr (acc @ s))"
proof (induction items arbitrary: acc)
  case Nil
  show ?case by simp
next
  case (Cons x items)
  show ?case
  proof (cases "subscript x ''title''")
    case (Inl e)
    then show ?thesis by simp
  next
    case title: (Inr title)
    show ?thesis
    proof (cases "str_lower title")
      case (Inl e)
      with title show ?thesis by simp
    next
      case low: (Inr t)
      show ?thesis
      proof (cases "py_in (lower kw) t")
        case False
        with title low Cons.IH [of acc] show ?thesis by simp
      next
        case True
        show ?thesis
        proof (cases "stream_record x")
          case (Inl e)
          with title low True show ?thesis by simp
        next
          case (Inr rec)
          with title low True Cons.IH [of "acc @ [rec]"] Cons.IH [of "[rec]"]
          show ?thesis by (simp split: sum.splits)
        qed
      qed
    qed
  qed
qed

lemma filter_streams_error: "filter_streams kw items acc = Inl e \<Longrightarrow> \<not> is_request_exception e"
proof (induction items arbitrary: acc)
  case Nil
  then show ?case by simp
next
  case (Cons x items)
  then show ?case
    by (auto split: sum.splits if_splits
        dest: subscript_error str_lower_error stream_record_error)
qed

lemma page_acc:
  "page kw r acc =
     (case page kw r [] of Inl e \<Rightarrow> Inl e | Inr (s, c) \<Rightarrow> Inr (acc @ s, c))"
proof (cases "fetch r")
  case (Inl e)
  then show ?thesis by (simp add: page_def)
next
  case data: (Inr data)
  show ?thesis
  proof (cases "dict_get data ''data'' (JArr [])")
    case (Inl e)
    with data show ?thesis by (simp add: page_def)
  next
    case entries: (Inr entries)
    show ?thesis
    proof (cases "py_iter entries")
      case (Inl e)
      with data entries show ?thesis by (simp add: page_def)
    next
      case (Inr items)
      with data entries filter_streams_acc [of kw items acc] show ?thesis
        by (simp add: page_def split: sum.splits)
    qed
  qed
qed

lemma page_request_exception:
  "page kw r acc = Inl e \<Longrightarrow> is_request_exception e = transport_error r"
  by (auto simp: page_def transport_error_def split: sum.splits
      dest: fetch_error dict_get_error py_iter_error filter_streams_error)

lemma page_transport_error:
  "transport_error r \<Longrightarrow> \<exists>e. page kw r acc = Inl e \<and> is_request_exception e"
  by (auto simp: page_def transport_error_def split: sum.splits dest: fetch_error)

lemma page_continues_acc:
  "page_continues kw r \<Longrightarrow>
     \<exists>c. page kw r acc = Inr (acc @ page_matches kw r, c) \<and> truthy c"
  by (subst page_acc) (auto simp: page_continues_def page_matches_def split: sum.splits)

lemma page_continues_cursor: "page_continues kw r \<Longrightarrow> truthy (response_cursor r)"
  by (auto simp: page_continues_def response_cursor_def page_def split: sum.splits)

lemma page_Inr_continues:
  "page kw r acc = Inr (s, c) \<Longrightarrow> page_continues kw r = truthy c"
  by (subst (asm) page_acc) (auto simp: page_continues_def split: sum.splits)

lemma requests_of_append [simp]: "requests_of (xs @ ys) = requests_of xs @ requests_of ys"
  by (induction xs rule: requests_of.induct) auto

lemma inserts_of_append [simp]: "inserts_of (xs @ ys) = inserts_of xs @ inserts_of ys"
  by (induction xs rule: inserts_of.induct) auto

lemma streams_requests_append [simp]:
  "streams_requests (xs @ ys) = streams_requests xs @ streams_requests ys"
  by (simp add: streams_requests_def)

lemma loop_exhausted:
  "\<forall>r\<in>set rs. page_continues kw r \<Longrightarrow> get_streams_loop hdrs kw prms cur acc rs = None"
proof (induction rs arbitrary: prms cur acc)
  case Nil
  show ?case by simp
next
  case (Cons r rs)
  then have "page_continues kw r" by simp
  then obtain c where c: "page kw r acc = Inr (acc @ page_matches kw r, c)" "truthy c"
    using page_continues_acc by blast
  from Cons have "\<And>p. get_streams_loop hdrs kw p c (acc @ page_matches kw r) rs = None"
    by simp
  with c show ?case by (simp add: Let_def)
qed

lemma loop_stops:
  assumes "\<forall>r\<in>set pre. page_continues kw r" and "\<not> page_continues kw stop"
  shows "\<exists>evs. get_streams_loop hdrs kw prms cur acc (pre @ stop # rest) =
            Some (evs, rest, loop_result kw (acc @ concat (map (page_matches kw) pre)) stop)
          \<and> length (requests_of evs) = Suc (length pre)
          \<and> streams_requests evs = requests_of evs
          \<and> inserts_of evs = []"
  using assms(1)
proof (induction pre arbitrary: prms cur acc)
  case Nil
  show ?case
  proof (cases "page kw stop acc")
    case (Inl e)
    then show ?thesis
      by (simp add: Let_def loop_result_def streams_requests_def)
  next
    case (Inr p)
    obtain s c where p: "p = (s, c)" by (cases p)
    with Inr assms(2) have "\<not> truthy c" using page_Inr_continues by blast
    with Inr p show ?thesis
      by (simp add: Let_def loop_result_def streams_requests_def)
  qed
next
  case (Cons r pre)
  then have "page_continues kw r" by simp
  then obtain c where c: "page kw r acc = Inr (acc @ page_matches kw r, c)" "truthy c"
    using page_continues_acc by blast
  define prms' where "prms' = (if truthy cur then dict_set ''after'' cur prms else prms)"
  from Cons obtain evs where evs:
    "get_streams_loop hdrs kw prms' c (acc @ page_matches kw r) (pre @ stop # rest) =
       Some (evs, rest,
             loop_result kw ((acc @ page_matches kw r) @ concat (map (page_matches kw) pre)) stop)"
    "length (requests_of evs) = Suc (length pre)"
    "streams_requests evs = requests_of evs"
    "inserts_of evs = []"
    by (metis list.set_intros(2))
  with c show ?case
    by (simp add: Let_def prms'_def streams_requests_def)
qed

lemma split_first_stop:
  "\<exists>r\<in>set rs. \<not> P r \<Longrightarrow>
     \<exists>pre stop rest. rs = pre @ stop # rest \<and> (\<forall>r\<in>set pre. P r) \<and> \<not> P stop"
proof (induction rs)
  case Nil
  then show ?case by simp
next
  case (Cons r rs)
  show ?case
  proof (cases "P r")
    case False
    then have "r # rs = [] @ r # rs \<and> (\<forall>x\<in>set []. P x) \<and> \<not> P r" by simp
    then show ?thesis by blast
  next
    case True
    with Cons obtain pre stop rest where
      "rs = pre @ stop # rest" "\<forall>r\<in>set pre. P r" "\<not> P stop" by auto
    with True have "r # rs = (r # pre) @ stop # rest \<and> (\<forall>x\<in>set (r # pre). P x) \<and> \<not> P stop"
      by simp
    then show ?thesis by blast
  qed
qed

lemma loop_requests:
  assumes "get_streams_loop hdrs kw prms cur acc rs = Some (evs, rest, res)"
  shows "\<exists>pre stop. rs = pre @ stop # rest \<and> (\<forall>r\<in>set pre. page_continues kw r)
           \<and> \<not> page_continues kw stop \<and> length (requests_of evs) = Suc (length pre)
           \<and> res = loop_result kw (acc @ concat (map (page_matches kw) pre)) stop
           \<and> streams_requests evs = requests_of evs \<and> inserts_of evs = []"
proof -
  have "\<exists>r\<in>set rs. \<not> page_continues kw r"
    using assms loop_exhausted [of rs kw hdrs prms cur acc] by auto
  then obtain pre stop rest' where d:
    "rs = pre @ stop # rest'" "\<forall>r\<in>set pre. page_continues kw r" "\<not> page_continues kw stop"
    using split_first_stop [of rs "page_continues kw"] by blast
  from loop_stops [OF d(2) d(3), of hdrs prms cur acc rest'] assms d(1)
  have "rest' = rest \<and> length (requests_of evs) = Suc (length pre)
        \<and> res = loop_result kw (acc @ concat (map (page_matches kw) pre)) stop
        \<and> streams_requests evs = requests_of evs \<and> inserts_of evs = []"
    by auto
  with d show ?thesis by blast
qed

text \<open>
  Claim C2, as stated, at a first page that carries the cursor \<^verbatim>\<open>abc\<close> and an entry
  without title: there is no transport error and the cursor is not empty, yet the
  \<^verbatim>\<open>KeyError\<close> leaves the loop and no second page is requested.
\<close>

theorem get_streams_stops_despite_cursor:
  "truthy (response_cursor
      (Response 200 ''OK'' ''https://api.twitch.tv/helix/streams''
        (Inr (JObj [(''data'', JArr [JObj [(''user_name'', JStr ''Bob'')]]),
                    (''pagination'', JObj [(''cursor'', JStr ''abc'')])]))))
   \<and> \<not> transport_error
      (Response 200 ''OK'' ''https://api.twitch.tv/helix/streams''
        (Inr (JObj [(''data'', JArr [JObj [(''user_name'', JStr ''Bob'')]]),
                    (''pagination'', JObj [(''cursor'', JStr ''abc'')])])))
   \<and> get_streams (\<lambda>v. []) ''id'' (JStr ''tok'') (JStr ''32982'') ''unscripted''
       [Response 200 ''OK'' ''https://api.twitch.tv/helix/streams''
          (Inr (JObj [(''data'', JArr [JObj [(''user_name'', JStr ''Bob'')]]),
                      (''pagination'', JObj [(''cursor'', JStr ''abc'')])])),
        Response 200 ''OK'' ''https://api.twitch.tv/helix/streams''
          (Inr (JObj [(''data'', JArr []), (''pagination'', JObj [])]))]
     = Some ([Request \<lparr>req_method = ''GET'', req_url = ''https://api.twitch.tv/helix/streams'',
                       req_headers = [(''Client-ID'', ''id''), (''Authorization'', ''Bearer tok'')],
                       req_params = [(''game_id'', JStr ''32982''), (''first'', JInt 100)]\<rparr>],
             [Response 200 ''OK'' ''https://api.twitch.tv/helix/streams''
                (Inr (JObj [(''data'', JArr []), (''pagination'', JObj [])]))],
             Inl (KeyError (quoted ''title'')))"
  by (simp add: response_cursor_def transport_error_def raise_for_status_def get_streams_def
      page_def api_headers_def)

text \<open>
  Claim C2, amended: in the stream-pagination loop, for every sequence of page
  responses, a further page request is issued if and only if the previous request and
  the processing of its page raised nothing (no transport error and no data-shape
  error) and the response carried a cursor that is true. So the loop never requests
  another page after a response whose cursor is absent or empty, and it requests another
  page as long as pages are processed and carry a cursor: when every response of the
  sequence is such, the loop has asked for one more than the sequence holds (the model
  returns \<open>None\<close>). The number of requests issued is the number of responses consumed.
\<close>

theorem get_streams_page_requests:
  "(get_streams repr client_id token game_id kw rs = None) = (\<forall>r\<in>set rs. page_continues kw r)
   \<and> (\<forall>evs rest res.
        get_streams repr client_id token game_id kw rs = Some (evs, rest, res) \<longrightarrow>
          0 < length (requests_of evs) \<and> length (requests_of evs) \<le> length rs
          \<and> rest = drop (length (requests_of evs)) rs
          \<and> (\<forall>k < length (requests_of evs).
                (Suc k < length (requests_of evs)) = page_continues kw (rs ! k))
          \<and> (\<forall>k < length (requests_of evs).
                Suc k < length (requests_of evs) \<longrightarrow> truthy (response_cursor (rs ! k))))"
proof -
  have none: "(get_streams repr client_id token game_id kw rs = None) = (\<forall>r\<in>set rs. page_continues kw r)"
  proof
    assume none: "get_streams repr client_id token game_id kw rs = None"
    show "\<forall>r\<in>set rs. page_continues kw r"
    proof (rule ccontr)
      assume "\<not> (\<forall>r\<in>set rs. page_continues kw r)"
      then obtain pre stop rest where d:
        "rs = pre @ stop # rest" "\<forall>r\<in>set pre. page_continues kw r" "\<not> page_continues kw stop"
        using split_first_stop [of rs "page_continues kw"] by blast
      from loop_stops [OF d(2) d(3), of "api_headers repr client_id token"
          "[(''game_id'', game_id), (''first'', JInt 100)]" JNull "[]" rest] d(1) none
      show False
        by (auto simp: get_streams_def)
    qed
  next
    assume "\<forall>r\<in>set rs. page_continues kw r"
    then show "get_streams repr client_id token game_id kw rs = None"
      by (simp add: get_streams_def loop_exhausted)
  qed
  have some: "0 < length (requests_of evs) \<and> length (requests_of evs) \<le> length rs
          \<and> rest = drop (length (requests_of evs)) rs
          \<and> (\<forall>k < length (requests_of evs).
                (Suc k < length (requests_of evs)) = page_continues kw (rs ! k))
          \<and> (\<forall>k < length (requests_of evs).
                Suc k < length (requests_of evs) \<longrightarrow> truthy (response_cursor (rs ! k)))"
    if "get_streams repr client_id token game_id kw rs = Some (evs, rest, res)" for evs rest res
  proof -
    from that obtain pre stop where d:
      "rs = pre @ stop # rest" "\<forall>r\<in>set pre. page_continues kw r" "\<not> page_continues kw stop"
      "length (requests_of evs) = Suc (length pre)"
      unfolding get_streams_def using loop_requests by blast
    have iff: "(Suc k < length (requests_of evs)) = page_continues kw (rs ! k)"
      if "k < length (requests_of evs)" for k
    proof (cases "k < length pre")
      case True
      then have "rs ! k = pre ! k" using d(1) by (simp add: nth_append)
      with True d(2,4) show ?thesis by simp
    next
      case False
      with that d(4) have "k = length pre" by simp
      with d(1,3,4) show ?thesis by simp
    qed
    have "rest = drop (length (requests_of evs)) rs" using d(1,4) by simp
    moreover have "length (requests_of evs) \<le> length rs" using d(1,4) by simp
    moreover have "0 < length (requests_of evs)" using d(4) by simp
    ultimately show ?thesis using iff page_continues_cursor by blast
  qed
  from none some show ?thesis by blast
qed

theorem get_streams_page_requests_witness:
  "get_streams (\<lambda>v. []) ''id'' (JStr ''tok'') (JStr ''32982'') ''unscripted''
       [Response 200 ''OK'' ''u''
          (Inr (JObj [(''data'', JArr []), (''pagination'', JObj [(''cursor'', JStr ''abc'')])])),
        Response 200 ''OK'' ''u'' (Inr (JObj [(''data'', JArr []), (''pagination'', JObj [])])),
        NoResponse ''never requested'']
     = Some ([Request \<lparr>req_method = ''GET'', req_url = ''https://api.twitch.tv/helix/streams'',
                       req_headers = [(''Client-ID'', ''id''), (''Authorization'', ''Bearer tok'')],
                       req_params = [(''game_id'', JStr ''32982''), (''first'', JInt 100)]\<rparr>,
              Sleep,
              Request \<lparr>req_method = ''GET'', req_url = ''https://api.twitch.tv/helix/streams'',
                       req_headers = [(''Client-ID'', ''id''), (''Authorization'', ''Bearer tok'')],
                       req_params = [(''game_id'', JStr ''32982''), (''first'', JInt 100),
                                     (''after'', JStr ''abc'')]\<rparr>],
             [NoResponse ''never requested''], Inr [])
   \<and> page_continues ''unscripted''
        (Response 200 ''OK'' ''u''
          (Inr (JObj [(''data'', JArr []), (''pagination'', JObj [(''cursor'', JStr ''abc'')])])))
   \<and> \<not> page_continues ''unscripted''
        (Response 200 ''OK'' ''u'' (Inr (JObj [(''data'', JArr []), (''pagination'', JObj [])])))"
  using get_streams_page_requests [of "\<lambda>v. []" "''id''" "JStr ''tok''" "JStr ''32982''" "''unscripted''"
      "[Response 200 ''OK'' ''u''
          (Inr (JObj [(''data'', JArr []), (''pagination'', JObj [(''cursor'', JStr ''abc'')])])),
        Response 200 ''OK'' ''u'' (Inr (JObj [(''data'', JArr []), (''pagination'', JObj [])])),
        NoResponse ''never requested'']"]
  by (simp add: get_streams_def page_def page_continues_def raise_for_status_def api_headers_def)

subsection \<open>Configuration\<close>

lemma check_required_missing:
  "(n, v) \<in> set l \<Longrightarrow> v = None \<or> v = Some [] \<Longrightarrow>
     \<exists>x\<in>fst ` set l.
        check_required l =
          ([Log ERROR (''Missing environment variable: '' @ x)],
           Inl (ValueError (''Environment variable '' @ x @ '' is not set'')))"
proof (induction l)
  case Nil
  then show ?case by simp
next
  case (Cons a l)
  obtain n' v' where a: "a = (n', v')" by (cases a)
  show ?case
  proof (cases "v' = None \<or> v' = Some []")
    case True
    with a show ?thesis by auto
  next
    case False
    with Cons a obtain x where "x \<in> fst ` set l"
      "check_required l =
          ([Log ERROR (''Missing environment variable: '' @ x)],
           Inl (ValueError (''Environment variable '' @ x @ '' is not set'')))"
      by auto
    with False a show ?thesis by auto
  qed
qed

text \<open>
  Claim C3: for each of the four required configuration values, if it is absent or empty
  in the environment, the run aborts during the configuration load: the load raises the
  \<^verbatim>\<open>ValueError\<close> for the first required value that is not set, \<^verbatim>\<open>main\<close> logs it and ends,
  and the run has issued no request and inserted no row. This holds whatever the
  network and the database would have answered.
\<close>

theorem main_missing_configuration:
  assumes "v \<in> set required_names" and "environ w v = None \<or> environ w v = Some []"
  shows "\<exists>x\<in>set required_names.
           load_environment_variables (environ w) =
             ([Log ERROR (''Missing environment variable: '' @ x)],
              Inl (ValueError (''Environment variable '' @ x @ '' is not set'')))
         \<and> main repr w =
             Some [Log ERROR (''Missing environment variable: '' @ x),
                   Log ERROR (''An error occurred in main: Environment variable '' @ x @ '' is not set'')]
         \<and> requests_of (the (main repr w)) = [] \<and> inserts_of (the (main repr w)) = []"
proof -
  let ?l = "[(''TWITCH_CLIENT_ID'', environ w ''TWITCH_CLIENT_ID''),
             (''TWITCH_CLIENT_SECRET'', environ w ''TWITCH_CLIENT_SECRET''),
             (''SUPABASE_URL'', environ w ''SUPABASE_URL''),
             (''SUPABASE_KEY'', environ w ''SUPABASE_KEY'')]"
  from assms(1) have "(v, environ w v) \<in> set ?l"
    by (auto simp: required_names_def)
  from check_required_missing [OF this assms(2)]
  obtain x where x: "x \<in> fst ` set ?l"
    "check_required ?l =
          ([Log ERROR (''Missing environment variable: '' @ x)],
           Inl (ValueError (''Environment variable '' @ x @ '' is not set'')))"
    by blast
  from x(1) have "x \<in> set required_names" by (auto simp: required_names_def)
  moreover from x(2) have "load_environment_variables (environ w) =
             ([Log ERROR (''Missing environment variable: '' @ x)],
              Inl (ValueError (''Environment variable '' @ x @ '' is not set'')))"
    by (simp add: load_environment_variables_def)
  moreover from this have "main repr w =
             Some [Log ERROR (''Missing environment variable: '' @ x),
                   Log ERROR (''An error occurred in main: Environment variable '' @ x @ '' is not set'')]"
    by (simp add: main_def main_try_def)
  ultimately show ?thesis by auto
qed

theorem main_missing_configuration_witness:
  "main (\<lambda>v. [])
     \<lparr>environ = [''TWITCH_CLIENT_ID'' \<mapsto> ''id'', ''TWITCH_CLIENT_SECRET'' \<mapsto> ''secret'',
                 ''SUPABASE_URL'' \<mapsto> ''''],
      create_client = (\<lambda>u k. None), responses = [], inserts = (\<lambda>k. None)\<rparr>
   = Some [Log ERROR ''Missing environment variable: SUPABASE_URL'',
           Log ERROR ''An error occurred in main: Environment variable SUPABASE_URL is not set'']
   \<and> ''SUPABASE_KEY'' \<in> set required_names"
  using main_missing_configuration [of "''SUPABASE_KEY''"
      "\<lparr>environ = [''TWITCH_CLIENT_ID'' \<mapsto> ''id'', ''TWITCH_CLIENT_SECRET'' \<mapsto> ''secret'',
                 ''SUPABASE_URL'' \<mapsto> ''''],
      create_client = (\<lambda>u k. None), responses = [], inserts = (\<lambda>k. None)\<rparr>" "\<lambda>v. []"]
  by (simp add: required_names_def main_def main_try_def load_environment_variables_def)

subsection \<open>The run\<close>

lemma token_result:
  "get_twitch_oauth_token client_id client_secret (r # rs) =
     Some (Request (token_request client_id client_secret)
             # (if transport_error r
                then [Log ERROR (''Failed to obtain Twitch OAuth token: ''
                                  @ err_str (case fetch r of Inl e \<Rightarrow> e))]
                else []),
           rs,
           (case fetch r of Inl e \<Rightarrow> Inl e | Inr body \<Rightarrow> dict_get body ''access_token'' JNull))"
  by (auto simp: get_twitch_oauth_token_def token_request_def transport_error_def Let_def
      split: sum.splits dest: fetch_error dict_get_error)

lemma token_events:
  assumes "get_twitch_oauth_token client_id client_secret rs = Some (evs, rest, res)"
  shows "requests_of evs = [token_request client_id client_secret] \<and> inserts_of evs = []
         \<and> streams_requests evs = [] \<and> (\<exists>r. rs = r # rest)"
proof (cases rs)
  case Nil
  with assms show ?thesis by (simp add: get_twitch_oauth_token_def)
next
  case (Cons r rs')
  with assms token_result [of client_id client_secret r rs'] show ?thesis
    by (auto simp: streams_requests_def token_request_def)
qed

lemma game_id_events:
  assumes "get_game_id repr client_id token game_name rs = Some (evs, rest, res)"
  shows "requests_of evs = [games_request repr client_id token game_name] \<and> inserts_of evs = []
         \<and> streams_requests evs = [] \<and> (\<exists>r. rs = r # rest)"
proof (cases rs)
  case Nil
  with assms show ?thesis by (simp add: get_game_id_def)
next
  case (Cons r rs')
  with assms show ?thesis
    by (auto simp: get_game_id_def games_request_def streams_requests_def Let_def
        split: sum.splits if_splits)
qed

lemma game_id_none:
  assumes "transport_error r \<or> no_results r"
  shows "\<exists>evs. get_game_id repr client_id token game_name (r # rs) = Some (evs, rs, Inr JNull)"
  using assms
  by (auto simp: get_game_id_def transport_error_def no_results_def Let_def
      split: sum.splits dest: fetch_error)

lemma load_configured:
  assumes "configured w client_id client_secret"
  shows "\<exists>supabase_url supabase_key.
           load_environment_variables (environ w) =
             ([], Inr [(''TWITCH_CLIENT_ID'', client_id), (''TWITCH_CLIENT_SECRET'', client_secret),
                       (''SUPABASE_URL'', supabase_url), (''SUPABASE_KEY'', supabase_key)])
           \<and> create_client w supabase_url supabase_key = None"
  using assms
  by (auto simp: configured_def load_environment_variables_def split: option.splits)

lemma main_try_token:
  assumes "configured w client_id client_secret"
  shows "main_try repr w =
     (case get_twitch_oauth_token client_id client_secret (responses w) of
        None \<Rightarrow> None
      | Some (ev1, rs1, Inl e) \<Rightarrow> Some (ev1, Inl e)
      | Some (ev1, rs1, Inr token) \<Rightarrow>
     (case get_game_id repr client_id token ''Grand Theft Auto V'' rs1 of
        None \<Rightarrow> None
      | Some (ev2, rs2, Inl e) \<Rightarrow> Some (ev1 @ ev2, Inl e)
      | Some (ev2, rs2, Inr game_id) \<Rightarrow>
          if \<not> truthy game_id
          then Some (ev1 @ ev2 @ [Log ERROR ''Could not find game ID for Grand Theft Auto V''], Inr ())
          else
     (case get_streams repr client_id token game_id ''unscripted'' rs2 of
        None \<Rightarrow> None
      | Some (ev3, rs3, Inl e) \<Rightarrow> Some (ev1 @ ev2 @ ev3, Inl e)
      | Some (ev3, rs3, Inr streams) \<Rightarrow>
          Some (ev1 @ ev2 @ ev3
                @ [Log INFO (''Found '' @ show_nat (length streams) @ '' streams with ''
                             @ quoted ''unscripted'' @ '' in title'')]
                @ fst (log_to_supabase (inserts w) streams),
                snd (log_to_supabase (inserts w) streams)))))"
proof -
  from load_configured [OF assms] obtain supabase_url supabase_key where
    "load_environment_variables (environ w) =
       ([], Inr [(''TWITCH_CLIENT_ID'', client_id), (''TWITCH_CLIENT_SECRET'', client_secret),
                 (''SUPABASE_URL'', supabase_url), (''SUPABASE_KEY'', supabase_key)])"
    "create_client w supabase_url supabase_key = None"
    by blast
  then have unfold: "main_try repr w =
     (case get_twitch_oauth_token client_id client_secret (responses w) of
        None \<Rightarrow> None
      | Some (ev1, rs1, Inl e) \<Rightarrow> Some ([] @ ev1, Inl e)
      | Some (ev1, rs1, Inr token) \<Rightarrow>
     (case get_game_id repr client_id token ''Grand Theft Auto V'' rs1 of
        None \<Rightarrow> None
      | Some (ev2, rs2, Inl e) \<Rightarrow> Some ([] @ ev1 @ ev2, Inl e)
      | Some (ev2, rs2, Inr game_id) \<Rightarrow>
          if \<not> truthy game_id
          then Some ([] @ ev1 @ ev2
                     @ [Log ERROR ''Could not find game ID for Grand Theft Auto V''], Inr ())
          else
     (case get_streams repr client_id token game_id ''unscripted'' rs2 of
        None \<Rightarrow> None
      | Some (ev3, rs3, Inl e) \<Rightarrow> Some ([] @ ev1 @ ev2 @ ev3, Inl e)
      | Some (ev3, rs3, Inr streams) \<Rightarrow>
     (case log_to_supabase (inserts w) streams of
        (ev4, res) \<Rightarrow>
          Some ([] @ ev1 @ ev2 @ ev3
                @ [Log INFO (''Found '' @ show_nat (length streams) @ '' streams with ''
                             @ quoted ''unscripted'' @ '' in title'')]
                @ ev4, res)))))"
    by (simp add: main_try_def env_item_def)
  show ?thesis
  proof (cases "get_twitch_oauth_token client_id client_secret (responses w)")
    case None
    with unfold show ?thesis by simp
  next
    case (Some t)
    obtain ev1 rs1 res1 where t: "t = (ev1, rs1, res1)" by (cases t)
    show ?thesis
    proof (cases res1)
      case (Inl e)
      with unfold Some t show ?thesis by simp
    next
      case token: (Inr token)
      show ?thesis
      proof (cases "get_game_id repr client_id token ''Grand Theft Auto V'' rs1")
        case None
        with unfold Some t token show ?thesis by simp
      next
        case game: (Some g)
        obtain ev2 rs2 res2 where g: "g = (ev2, rs2, res2)" by (cases g)
        show ?thesis
        proof (cases res2)
          case (Inl e)
          with unfold Some t token game g show ?thesis by simp
        next
          case gid: (Inr game_id)
          show ?thesis
          proof (cases "get_streams repr client_id token game_id ''unscripted'' rs2")
            case None
            with unfold Some t token game g gid show ?thesis by simp
          next
            case streams: (Some p)
            obtain ev3 rs3 res3 where p: "p = (ev3, rs3, res3)" by (cases p)
            show ?thesis
            proof (cases res3)
              case (Inl e)
              with unfold Some t token game g gid streams p show ?thesis by simp
            next
              case (Inr found)
              with unfold Some t token game g gid streams p show ?thesis
                by (simp add: case_prod_unfold)
            qed
          qed
        qed
      qed
    qed
  qed
qed

lemma streams_requests_simps [simp]:
  "streams_requests [] = []"
  "streams_requests (Log l m # evs) = streams_requests evs"
  "streams_requests (Sleep # evs) = streams_requests evs"
  "streams_requests (Insert t row # evs) = streams_requests evs"
  by (simp_all add: streams_requests_def)

text \<open>
  Claim C5: in a configured run that has its token, if game resolution returns no
  identifier, because the lookup request failed or because the lookup response held no
  result, the run stops there: its only requests are the token request and the games
  lookup, no request goes to the streams-listing endpoint and no row is inserted.
\<close>

theorem main_stops_without_game_id:
  assumes "configured w client_id client_secret"
    and "get_twitch_oauth_token client_id client_secret (responses w) = Some (ev1, r # rs2, Inr token)"
    and "transport_error r \<or> no_results r"
  shows "\<exists>ev2 evs.
           get_game_id repr client_id token ''Grand Theft Auto V'' (r # rs2) = Some (ev2, rs2, Inr JNull)
         \<and> main repr w = Some evs
         \<and> evs = ev1 @ ev2 @ [Log ERROR ''Could not find game ID for Grand Theft Auto V'']
         \<and> requests_of evs = [token_request client_id client_secret,
                               games_request repr client_id token ''Grand Theft Auto V'']
         \<and> streams_requests evs = [] \<and> inserts_of evs = []"
proof -
  from game_id_none [OF assms(3)] obtain ev2 where
    g: "get_game_id repr client_id token ''Grand Theft Auto V'' (r # rs2) = Some (ev2, rs2, Inr JNull)"
    by blast
  from main_try_token [OF assms(1)] assms(2) g
  have "main repr w = Some (ev1 @ ev2 @ [Log ERROR ''Could not find game ID for Grand Theft Auto V''])"
    by (simp add: main_def)
  with g token_events [OF assms(2)] game_id_events [OF g] show ?thesis
    by simp
qed

theorem main_stops_without_game_id_witness:
  "configured world_no_game ''id'' ''secret''
   \<and> no_results (Response 200 ''OK'' ''https://api.twitch.tv/helix/games''
                     (Inr (JObj [(''data'', JArr [])])))
   \<and> main (\<lambda>v. []) world_no_game =
       Some [Request (token_request ''id'' ''secret''),
             Request (games_request (\<lambda>v. []) ''id'' (JStr ''tok'') ''Grand Theft Auto V''),
             Log WARNING ''No game found with name: Grand Theft Auto V'',
             Log ERROR ''Could not find game ID for Grand Theft Auto V'']"
proof -
  have c: "configured world_no_game ''id'' ''secret''"
    by (simp add: configured_def world_no_game_def)
  have t: "get_twitch_oauth_token ''id'' ''secret'' (responses world_no_game) =
      Some ([Request (token_request ''id'' ''secret'')],
            Response 200 ''OK'' ''https://api.twitch.tv/helix/games''
                     (Inr (JObj [(''data'', JArr [])])) # [], Inr (JStr ''tok''))"
    by (simp add: world_no_game_def get_twitch_oauth_token_def token_request_def raise_for_status_def)
  have n: "transport_error (Response 200 ''OK'' ''https://api.twitch.tv/helix/games''
                     (Inr (JObj [(''data'', JArr [])])))
        \<or> no_results (Response 200 ''OK'' ''https://api.twitch.tv/helix/games''
                     (Inr (JObj [(''data'', JArr [])])))"
    by (simp add: no_results_def raise_for_status_def)
  have g: "get_game_id (\<lambda>v. []) ''id'' (JStr ''tok'') ''Grand Theft Auto V''
        [Response 200 ''OK'' ''https://api.twitch.tv/helix/games'' (Inr (JObj [(''data'', JArr [])]))]
      = Some ([Request (games_request (\<lambda>v. []) ''id'' (JStr ''tok'') ''Grand Theft Auto V''),
               Log WARNING ''No game found with name: Grand Theft Auto V''], [], Inr JNull)"
    by (simp add: get_game_id_def games_request_def raise_for_status_def)
  from main_stops_without_game_id [OF c t n, of "\<lambda>v. []"] g c show ?thesis
    by (simp add: no_results_def raise_for_status_def)
qed

lemma main_requests_prefix:
  assumes "configured w client_id client_secret"
    and "get_twitch_oauth_token client_id client_secret (responses w) = Some (ev1, rs1, Inr token)"
    and "main repr w = Some evs"
  shows "\<exists>more. requests_of evs =
           token_request client_id client_secret
           # games_request repr client_id token ''Grand Theft Auto V'' # more"
proof (cases "get_game_id repr client_id token ''Grand Theft Auto V'' rs1")
  case None
  with main_try_token [OF assms(1)] assms(2,3) show ?thesis by (simp add: main_def)
next
  case (Some g)
  obtain ev2 rs2 res2 where g: "g = (ev2, rs2, res2)" by (cases g)
  from Some g have r2: "requests_of ev2 = [games_request repr client_id token ''Grand Theft Auto V'']"
    using game_id_events by blast
  from assms(2) have r1: "requests_of ev1 = [token_request client_id client_secret]"
    using token_events by blast
  from main_try_token [OF assms(1)] assms(2) Some g
  have "\<exists>tl res. main_try repr w = None \<or> main_try repr w = Some (ev1 @ ev2 @ tl, res)"
    by (auto split: sum.splits option.splits)
  then obtain tl res where "main_try repr w = None \<or> main_try repr w = Some (ev1 @ ev2 @ tl, res)"
    by blast
  with assms(3) have "\<exists>tl'. evs = ev1 @ ev2 @ tl'"
    by (auto simp: main_def split: sum.splits)
  with r1 r2 show ?thesis by auto
qed

lemma token_outcomes:
  "(transport_error r \<longrightarrow>
      (\<exists>e. is_request_exception e \<and>
           get_twitch_oauth_token client_id client_secret (r # rs) =
             Some ([Request (token_request client_id client_secret),
                    Log ERROR (''Failed to obtain Twitch OAuth token: '' @ err_str e)], rs, Inl e)))
   \<and> (fetch r = Inr (JObj kvs) \<longrightarrow>
        get_twitch_oauth_token client_id client_secret (r # rs) =
          Some ([Request (token_request client_id client_secret)], rs,
                Inr (case map_of kvs ''access_token'' of None \<Rightarrow> JNull | Some t \<Rightarrow> t)))
   \<and> (fetch r = Inr body \<and> (\<forall>kvs. body \<noteq> JObj kvs) \<longrightarrow>
        get_twitch_oauth_token client_id client_secret (r # rs) =
          Some ([Request (token_request client_id client_secret)], rs, Inl (no_attribute body ''get'')))
   \<and> (configured w client_id client_secret \<and> responses w = r # rs \<and> fetch r = Inr (JObj kvs)
        \<and> map_of kvs ''access_token'' = None \<longrightarrow>
        (rs = [] \<longrightarrow> main repr w = None)
        \<and> (\<forall>evs. main repr w = Some evs \<longrightarrow>
              (\<exists>more. requests_of evs =
                 token_request client_id client_secret
                 # games_request repr client_id JNull ''Grand Theft Auto V'' # more))
        \<and> req_headers (games_request repr client_id JNull ''Grand Theft Auto V'') =
            [(''Client-ID'', client_id), (''Authorization'', ''Bearer None'')])"
proof (intro conjI)
  show "transport_error r \<longrightarrow>
      (\<exists>e. is_request_exception e \<and>
           get_twitch_oauth_token client_id client_secret (r # rs) =
             Some ([Request (token_request client_id client_secret),
                    Log ERROR (''Failed to obtain Twitch OAuth token: '' @ err_str e)], rs, Inl e))"
    by (auto simp: token_result transport_error_def split: sum.splits dest: fetch_error)
  show "fetch r = Inr (JObj kvs) \<longrightarrow>
        get_twitch_oauth_token client_id client_secret (r # rs) =
          Some ([Request (token_request client_id client_secret)], rs,
                Inr (case map_of kvs ''access_token'' of None \<Rightarrow> JNull | Some t \<Rightarrow> t))"
    by (simp add: token_result transport_error_def)
  show "fetch r = Inr body \<and> (\<forall>kvs. body \<noteq> JObj kvs) \<longrightarrow>
        get_twitch_oauth_token client_id client_secret (r # rs) =
          Some ([Request (token_request client_id client_secret)], rs, Inl (no_attribute body ''get''))"
    by (cases body) (simp_all add: token_result transport_error_def)
  show "configured w client_id client_secret \<and> responses w = r # rs \<and> fetch r = Inr (JObj kvs)
        \<and> map_of kvs ''access_token'' = None \<longrightarrow>
        (rs = [] \<longrightarrow> main repr w = None)
        \<and> (\<forall>evs. main repr w = Some evs \<longrightarrow>
              (\<exists>more. requests_of evs =
                 token_request client_id client_secret
                 # games_request repr client_id JNull ''Grand Theft Auto V'' # more))
        \<and> req_headers (games_request repr client_id JNull ''Grand Theft Auto V'') =
            [(''Client-ID'', client_id), (''Authorization'', ''Bearer None'')]"
  proof
    assume a: "configured w client_id client_secret \<and> responses w = r # rs \<and> fetch r = Inr (JObj kvs)
        \<and> map_of kvs ''access_token'' = None"
    then have t: "get_twitch_oauth_token client_id client_secret (responses w) =
        Some ([Request (token_request client_id client_secret)], rs, Inr JNull)"
      by (simp add: token_result transport_error_def)
    have c: "configured w client_id client_secret" using a by simp
    have "rs = [] \<longrightarrow> main repr w = None"
      using main_try_token [OF c] t by (simp add: main_def get_game_id_def)
    moreover have "\<forall>evs. main repr w = Some evs \<longrightarrow>
              (\<exists>more. requests_of evs =
                 token_request client_id client_secret
                 # games_request repr client_id JNull ''Grand Theft Auto V'' # more)"
      using main_requests_prefix [OF c t] by blast
    moreover have "req_headers (games_request repr client_id JNull ''Grand Theft Auto V'') =
            [(''Client-ID'', client_id), (''Authorization'', ''Bearer None'')]"
      by (simp add: games_request_def api_headers_def)
    ultimately show "(rs = [] \<longrightarrow> main repr w = None)
        \<and> (\<forall>evs. main repr w = Some evs \<longrightarrow>
              (\<exists>more. requests_of evs =
                 token_request client_id client_secret
                 # games_request repr client_id JNull ''Grand Theft Auto V'' # more))
        \<and> req_headers (games_request repr client_id JNull ''Grand Theft Auto V'') =
            [(''Client-ID'', client_id), (''Authorization'', ''Bearer None'')]"
      by blast
  qed
qed

subsection \<open>Persistence\<close>

lemma is_record_insert_data: "is_record s \<Longrightarrow> insert_data s = Inr (row_of s)"
proof (cases s)
  case (JObj kvs)
  assume "is_record s"
  with JObj have "map fst kvs =
      [''streamer_name'', ''stream_title'', ''viewer_count'', ''game_name'', ''serverId'']"
    by simp
  then obtain a b c d e where
    "kvs = [(''streamer_name'', a), (''stream_title'', b), (''viewer_count'', c),
            (''game_name'', d), (''serverId'', e)]"
    by (auto simp: map_eq_Cons_conv)
  with JObj show ?thesis by (simp add: insert_data_def)
qed simp_all

lemma insert_all_prefix:
  assumes "\<forall>s\<in>set streams. is_record s" and "i \<le> length streams"
    and "\<forall>j<i. db (k + j) = None" and "i < length streams \<longrightarrow> db (k + i) = Some m"
  shows "insert_all db k streams =
           (map (\<lambda>s. Insert ''twitch_streams'' (row_of s)) (take i streams),
            if i = length streams then Inr () else Inl (OtherException m))"
  using assms
proof (induction streams arbitrary: i k)
  case Nil
  then show ?case by simp
next
  case (Cons s streams)
  then have data: "insert_data s = Inr (row_of s)" by (simp add: is_record_insert_data)
  show ?case
  proof (cases i)
    case 0
    with Cons.prems data show ?thesis by simp
  next
    case (Suc i')
    with Cons.prems have "db k = None" by force
    moreover have "insert_all db (Suc k) streams =
           (map (\<lambda>s. Insert ''twitch_streams'' (row_of s)) (take i' streams),
            if i' = length streams then Inr () else Inl (OtherException m))"
    proof (rule Cons.IH)
      show "\<forall>s\<in>set streams. is_record s" using Cons.prems by simp
      show "i' \<le> length streams" using Cons.prems Suc by simp
      show "\<forall>j<i'. db (Suc k + j) = None"
      proof (intro allI impI)
        fix j assume "j < i'"
        then have "Suc j < i" using Suc by simp
        with Cons.prems(3) have "db (k + Suc j) = None" by blast
        then show "db (Suc k + j) = None" by simp
      qed
      show "i' < length streams \<longrightarrow> db (Suc k + i') = Some m"
        using Cons.prems(4) Suc by simp
    qed
    ultimately show ?thesis using data Suc by simp
  qed
qed

lemma insert_all_no_requests: "requests_of (fst (insert_all db k streams)) = []"
proof (induction streams arbitrary: k)
  case Nil
  show ?case by simp
next
  case (Cons s streams)
  from Cons [of "Suc k"] show ?case
    by (cases "insert_all db (Suc k) streams") (simp split: sum.splits option.splits)
qed

lemma log_to_supabase_returns: "snd (log_to_supabase db streams) = Inr ()"
  by (simp add: log_to_supabase_def split: prod.splits sum.splits)

lemma log_to_supabase_no_requests: "requests_of (fst (log_to_supabase db streams)) = []"
proof -
  obtain evs res where i: "insert_all db 0 streams = (evs, res)"
    by (cases "insert_all db 0 streams")
  with insert_all_no_requests [of db 0 streams] have "requests_of evs = []" by simp
  with i show ?thesis by (simp add: log_to_supabase_def split: sum.splits)
qed

text \<open>
  Claim C7: in the persistence step, with a non-empty list of matches, each match is
  inserted as one row, in order, as long as the inserts succeed. When the insert of the
  match at position \<open>i\<close> fails, the failure is caught and logged, the function returns
  normally (so the run does not crash), and the rows of the \<open>i\<close> matches before it are
  the rows inserted: nothing removes them. The function never raises.
\<close>

theorem log_to_supabase_partial:
  "snd (log_to_supabase db streams) = Inr ()
   \<and> (streams \<noteq> [] \<and> (\<forall>s\<in>set streams. is_record s) \<and> (\<forall>j<length streams. db j = None) \<longrightarrow>
        log_to_supabase db streams =
          (map (\<lambda>s. Insert ''twitch_streams'' (row_of s)) streams
           @ [Log INFO (''Successfully logged '' @ show_nat (length streams) @ '' streams to Supabase'')],
           Inr ()))
   \<and> (streams \<noteq> [] \<and> (\<forall>s\<in>set streams. is_record s) \<and> i < length streams
        \<and> (\<forall>j<i. db j = None) \<and> db i = Some m \<longrightarrow>
        log_to_supabase db streams =
          (map (\<lambda>s. Insert ''twitch_streams'' (row_of s)) (take i streams)
           @ [Log ERROR (''Failed to log to Supabase: '' @ m)],
           Inr ()))"
proof (intro conjI impI)
  show "snd (log_to_supabase db streams) = Inr ()" by (rule log_to_supabase_returns)
next
  assume a: "streams \<noteq> [] \<and> (\<forall>s\<in>set streams. is_record s) \<and> (\<forall>j<length streams. db j = None)"
  then have "insert_all db 0 streams =
      (map (\<lambda>s. Insert ''twitch_streams'' (row_of s)) (take (length streams) streams),
       if length streams = length streams then Inr () else Inl (OtherException []))"
    by (intro insert_all_prefix) simp_all
  with a show "log_to_supabase db streams =
          (map (\<lambda>s. Insert ''twitch_streams'' (row_of s)) streams
           @ [Log INFO (''Successfully logged '' @ show_nat (length streams) @ '' streams to Supabase'')],
           Inr ())"
    by (simp add: log_to_supabase_def)
next
  assume a: "streams \<noteq> [] \<and> (\<forall>s\<in>set streams. is_record s) \<and> i < length streams
        \<and> (\<forall>j<i. db j = None) \<and> db i = Some m"
  then have "insert_all db 0 streams =
      (map (\<lambda>s. Insert ''twitch_streams'' (row_of s)) (take i streams),
       if i = length streams then Inr () else Inl (OtherException m))"
    by (intro insert_all_prefix) simp_all
  with a show "log_to_supabase db streams =
          (map (\<lambda>s. Insert ''twitch_streams'' (row_of s)) (take i streams)
           @ [Log ERROR (''Failed to log to Supabase: '' @ m)],
           Inr ())"
    by (simp add: log_to_supabase_def)
qed

theorem log_to_supabase_partial_witness:
  "log_to_supabase (\<lambda>k. if k = 1 then Some ''timeout'' else None) [alice, carol] =
     ([Insert ''twitch_streams'' (row_of alice), Log ERROR ''Failed to log to Supabase: timeout''],
      Inr ())
   \<and> log_to_supabase (\<lambda>k. None) [alice, carol] =
     ([Insert ''twitch_streams'' (row_of alice), Insert ''twitch_streams'' (row_of carol),
       Log INFO ''Successfully logged 2 streams to Supabase''],
      Inr ())
   \<and> is_record alice \<and> is_record carol"
  using log_to_supabase_partial [of "\<lambda>k. if k = 1 then Some ''timeout'' else None"
      "[alice, carol]" 1 "''timeout''"]
    log_to_supabase_partial [of "\<lambda>k. None" "[alice, carol]"]
  by (simp add: alice_def carol_def digit_def)

subsection \<open>A transport error during pagination\<close>

lemma filter_streams_records:
  "filter_streams kw items acc = Inr s \<Longrightarrow> \<forall>m\<in>set acc. is_record m \<Longrightarrow> \<forall>m\<in>set s. is_record m"
proof (induction items arbitrary: acc)
  case Nil
  then show ?case by simp
next
  case (Cons x items)
  show ?case
  proof (cases "subscript x ''title''")
    case (Inl e)
    with Cons.prems(1) show ?thesis by simp
  next
    case title: (Inr title)
    show ?thesis
    proof (cases "str_lower title")
      case (Inl e)
      with title Cons.prems(1) show ?thesis by simp
    next
      case low: (Inr t)
      show ?thesis
      proof (cases "py_in (lower kw) t")
        case False
        with title low Cons.prems(1) have "filter_streams kw items acc = Inr s" by simp
        from Cons.IH [OF this Cons.prems(2)] show ?thesis .
      next
        case True
        show ?thesis
        proof (cases "stream_record x")
          case (Inl e)
          with title low True Cons.prems(1) show ?thesis by simp
        next
          case (Inr rec)
          with title low True Cons.prems(1)
          have f: "filter_streams kw items (acc @ [rec]) = Inr s" by simp
          from Inr have "is_record rec" by (rule stream_record_is_record)
          with Cons.prems(2) have "\<forall>m\<in>set (acc @ [rec]). is_record m" by simp
          from Cons.IH [OF f this] show ?thesis .
        qed
      qed
    qed
  qed
qed

lemma page_matches_records: "m \<in> set (page_matches kw r) \<Longrightarrow> is_record m"
proof -
  assume m: "m \<in> set (page_matches kw r)"
  obtain s c where p: "page kw r [] = Inr (s, c)" "m \<in> set s"
  proof (cases "page kw r []")
    case (Inl e)
    with m show ?thesis by (simp add: page_matches_def)
  next
    case (Inr p)
    with m that show ?thesis by (cases p) (simp add: page_matches_def)
  qed
  then obtain items where "filter_streams kw items [] = Inr s"
    by (auto simp: page_def split: sum.splits)
  from filter_streams_records [OF this] p(2) show ?thesis by simp
qed

lemma main_streams:
  assumes "configured w client_id client_secret"
    and "get_twitch_oauth_token client_id client_secret (responses w) = Some (ev1, rs1, Inr token)"
    and "get_game_id repr client_id token ''Grand Theft Auto V'' rs1 = Some (ev2, rs2, Inr game_id)"
    and "truthy game_id"
    and "get_streams repr client_id token game_id ''unscripted'' rs2 = Some (ev3, rs3, res)"
  shows "main repr w =
    Some (ev1 @ ev2 @ ev3 @
      (case res of
         Inl e \<Rightarrow> [Log ERROR (''An error occurred in main: '' @ err_str e)]
       | Inr streams \<Rightarrow>
           Log INFO (''Found '' @ show_nat (length streams) @ '' streams with ''
                     @ quoted ''unscripted'' @ '' in title'')
           # fst (log_to_supabase (inserts w) streams)))"
  using main_try_token [OF assms(1), of repr] assms(2-5)
    log_to_supabase_returns [of "inserts w"]
  by (cases res) (simp_all add: main_def)

lemma inserts_of_map_Insert:
  "inserts_of (map (\<lambda>s. Insert t (f s)) xs) = map (\<lambda>s. (t, f s)) xs"
  by (induction xs) simp_all

lemma log_to_supabase_all_inserted:
  assumes "\<forall>s\<in>set streams. is_record s" and "\<forall>k<length streams. db k = None"
  shows "inserts_of (fst (log_to_supabase db streams)) =
           map (\<lambda>s. (''twitch_streams'', row_of s)) streams"
proof (cases "streams = []")
  case True
  then show ?thesis by (simp add: log_to_supabase_def)
next
  case False
  from assms have "insert_all db 0 streams =
      (map (\<lambda>s. Insert ''twitch_streams'' (row_of s)) (take (length streams) streams),
       if length streams = length streams then Inr () else Inl (OtherException []))"
    by (intro insert_all_prefix) simp_all
  with False show ?thesis
    by (simp add: log_to_supabase_def inserts_of_map_Insert)
qed

text \<open>
  Claim C4: in a configured run that has its token and its game identifier, if the
  requests for pages 1 to \<open>n - 1\<close> (\<open>pages\<close>) succeed and carry a cursor and the request
  for page \<open>n\<close> meets a transport error, then exactly \<open>n\<close> page requests are issued, the
  pagination step returns all the matches of pages 1 to \<open>n - 1\<close>, in order and none
  discarded, and the run hands exactly these matches to the persistence step: when the
  inserts succeed, the rows inserted are the rows of these matches.
\<close>

theorem pagination_transport_error:
  assumes "configured w client_id client_secret"
    and "get_twitch_oauth_token client_id client_secret (responses w) = Some (ev1, rs1, Inr token)"
    and "get_game_id repr client_id token ''Grand Theft Auto V'' rs1 =
           Some (ev2, pages @ failed # rest, Inr game_id)"
    and "truthy game_id"
    and "\<forall>p\<in>set pages. page_continues ''unscripted'' p"
    and "transport_error failed"
  shows "\<exists>ev3 evs.
      get_streams repr client_id token game_id ''unscripted'' (pages @ failed # rest) =
        Some (ev3, rest, Inr (concat (map (page_matches ''unscripted'') pages)))
      \<and> length (requests_of ev3) = Suc (length pages)
      \<and> main repr w = Some evs
      \<and> evs = ev1 @ ev2 @ ev3
           @ Log INFO (''Found '' @ show_nat (length (concat (map (page_matches ''unscripted'') pages)))
                       @ '' streams with '' @ quoted ''unscripted'' @ '' in title'')
           # fst (log_to_supabase (inserts w) (concat (map (page_matches ''unscripted'') pages)))
      \<and> length (streams_requests evs) = Suc (length pages)
      \<and> ((\<forall>k<length (concat (map (page_matches ''unscripted'') pages)). inserts w k = None) \<longrightarrow>
           inserts_of evs =
             map (\<lambda>m. (''twitch_streams'', row_of m))
               (concat (map (page_matches ''unscripted'') pages)))"
proof -
  let ?matches = "concat (map (page_matches ''unscripted'') pages)"
  from assms(6) have stop: "\<not> page_continues ''unscripted'' failed"
    by (auto simp: page_continues_def page_def transport_error_def split: sum.splits)
  from page_transport_error [OF assms(6), of "''unscripted''" ?matches]
  have res: "loop_result ''unscripted'' ([] @ ?matches) failed = Inr ?matches"
    by (auto simp: loop_result_def)
  from loop_stops [OF assms(5) stop, of "api_headers repr client_id token"
      "[(''game_id'', game_id), (''first'', JInt 100)]" JNull "[]" rest] res
  obtain ev3 where ev3:
    "get_streams repr client_id token game_id ''unscripted'' (pages @ failed # rest) =
        Some (ev3, rest, Inr ?matches)"
    "length (requests_of ev3) = Suc (length pages)"
    "streams_requests ev3 = requests_of ev3" "inserts_of ev3 = []"
    by (auto simp: get_streams_def)
  define evs where "evs = ev1 @ ev2 @ ev3
           @ Log INFO (''Found '' @ show_nat (length ?matches)
                       @ '' streams with '' @ quoted ''unscripted'' @ '' in title'')
           # fst (log_to_supabase (inserts w) ?matches)"
  from main_streams [OF assms(1-4) ev3(1)] have m: "main repr w = Some evs"
    by (simp add: evs_def)
  have t: "streams_requests ev1 = []" "inserts_of ev1 = []"
    using token_events [OF assms(2)] by simp_all
  have g: "streams_requests ev2 = []" "inserts_of ev2 = []"
    using game_id_events [OF assms(3)] by simp_all
  have l: "streams_requests (fst (log_to_supabase (inserts w) ?matches)) = []"
    by (simp add: streams_requests_def log_to_supabase_no_requests)
  have n: "length (streams_requests evs) = Suc (length pages)"
    using t g l ev3 by (simp add: evs_def)
  have recs: "\<forall>s\<in>set ?matches. is_record s"
    using page_matches_records by auto
  have i: "inserts_of evs = map (\<lambda>m. (''twitch_streams'', row_of m)) ?matches"
    if "\<forall>k<length ?matches. inserts w k = None"
    using t g ev3 log_to_supabase_all_inserted [OF recs that] by (simp add: evs_def)
  from ev3(1,2) m n i evs_def show ?thesis by blast
qed

lemma page_one_facts:
  "page_continues ''unscripted'' page_one" "page_matches ''unscripted'' page_one = [alice]"
  by (simp_all add: page_continues_def page_matches_def page_one_def page_def
      raise_for_status_def lower_def lower_char_def stream_record_def alice_def)

theorem pagination_transport_error_witness:
  "configured world_page_two_fails ''id'' ''secret''
   \<and> page_continues ''unscripted'' page_one
   \<and> transport_error (NoResponse ''Connection reset'')
   \<and> length (streams_requests (the (main (\<lambda>v. []) world_page_two_fails))) = 2
   \<and> inserts_of (the (main (\<lambda>v. []) world_page_two_fails)) = [(''twitch_streams'', row_of alice)]"
proof -
  have c: "configured world_page_two_fails ''id'' ''secret''"
    by (simp add: configured_def world_page_two_fails_def)
  have t: "get_twitch_oauth_token ''id'' ''secret'' (responses world_page_two_fails) =
      Some ([Request (token_request ''id'' ''secret'')],
            [game_ok, page_one, NoResponse ''Connection reset''], Inr (JStr ''tok''))"
    by (simp add: world_page_two_fails_def token_result token_ok_def transport_error_def
        raise_for_status_def)
  have g: "get_game_id (\<lambda>v. []) ''id'' (JStr ''tok'') ''Grand Theft Auto V''
             [game_ok, page_one, NoResponse ''Connection reset''] =
      Some ([Request (games_request (\<lambda>v. []) ''id'' (JStr ''tok'') ''Grand Theft Auto V'')],
            [page_one] @ NoResponse ''Connection reset'' # [], Inr (JStr ''32982''))"
    by (simp add: get_game_id_def game_ok_def games_request_def raise_for_status_def)
  have p: "\<forall>p\<in>set [page_one]. page_continues ''unscripted'' p"
    by (simp add: page_one_facts)
  have f: "transport_error (NoResponse ''Connection reset'')"
    by (simp add: transport_error_def)
  have tr: "truthy (JStr ''32982'')" by simp
  from pagination_transport_error [OF c t g tr p f] c f show ?thesis
    by (auto simp: page_one_facts world_page_two_fails_def)
qed

subsection \<open>Entries of a page\<close>

lemma filter_streams_append:
  "filter_streams kw (xs @ ys) acc =
     (case filter_streams kw xs acc of Inl e \<Rightarrow> Inl e | Inr s \<Rightarrow> filter_streams kw ys s)"
  by (induction xs arbitrary: acc) (simp_all split: sum.splits)

lemma page_missing_title:
  assumes "fetch r = Inr data" and "dict_get data ''data'' (JArr []) = Inr entries"
    and "py_iter entries = Inr (before @ JObj kvs # after)"
    and "filter_streams kw before [] = Inr found"
    and "map_of kvs ''title'' = None"
  shows "page kw r acc = Inl (KeyError (quoted ''title''))"
proof -
  from assms(4) have "filter_streams kw before acc = Inr (acc @ found)"
    by (subst filter_streams_acc) simp
  with assms(5) have "filter_streams kw (before @ JObj kvs # after) acc = Inl (KeyError (quoted ''title''))"
    by (simp add: filter_streams_append)
  with assms(1-3) show ?thesis by (simp add: page_def)
qed

text \<open>
  Claim C8, as stated, at a page whose only entry has a title, a user name and a viewer
  count and no \<^verbatim>\<open>game_name\<close> field: nothing fails, and the entry is matched and recorded.
  The game name of a record is the constant of line 93; no entry is asked for it.
\<close>

theorem entry_without_game_name_is_processed:
  "map_of [(''title'', JStr ''Unscripted RP''), (''user_name'', JStr ''Alice''),
           (''viewer_count'', JInt 42)] ''game_name'' = None
   \<and> get_streams (\<lambda>v. []) ''id'' (JStr ''tok'') (JStr ''32982'') ''unscripted''
       [Response 200 ''OK'' ''https://api.twitch.tv/helix/streams''
          (Inr (JObj [(''data'', JArr [JObj [(''title'', JStr ''Unscripted RP''),
                                              (''user_name'', JStr ''Alice''),
                                              (''viewer_count'', JInt 42)]]),
                      (''pagination'', JObj [])]))]
     = Some ([Request \<lparr>req_method = ''GET'', req_url = ''https://api.twitch.tv/helix/streams'',
                       req_headers = [(''Client-ID'', ''id''), (''Authorization'', ''Bearer tok'')],
                       req_params = [(''game_id'', JStr ''32982''), (''first'', JInt 100)]\<rparr>],
             [],
             Inr [JObj [(''streamer_name'', JStr ''Alice''), (''stream_title'', JStr ''Unscripted RP''),
                        (''viewer_count'', JInt 42), (''game_name'', JStr ''Grand Theft Auto V''),
                        (''serverId'', JStr ''o3re8y'')]])"
  by (simp add: get_streams_def page_def raise_for_status_def api_headers_def
      lower_def lower_char_def stream_record_def)

lemma missing_title_run:
  assumes "fetch r = Inr data" and "dict_get data ''data'' (JArr []) = Inr entries"
    and "py_iter entries = Inr (before @ JObj kvs # after)"
    and "filter_streams kw before [] = Inr found"
    and "map_of kvs ''title'' = None"
  shows "page kw r acc = Inl (KeyError (quoted ''title''))
     \<and> \<not> is_request_exception (KeyError (quoted ''title''))
     \<and> get_streams_loop hdrs kw prms cur acc (r # rest) =
         Some ([Request \<lparr>req_method = ''GET'', req_url = ''https://api.twitch.tv/helix/streams'',
                         req_headers = hdrs,
                         req_params = (if truthy cur then dict_set ''after'' cur prms else prms)\<rparr>],
               rest, Inl (KeyError (quoted ''title'')))
     \<and> (kw = ''unscripted'' \<and> configured w client_id client_secret
          \<and> get_twitch_oauth_token client_id client_secret (responses w) = Some (ev1, rs1, Inr token)
          \<and> get_game_id repr client_id token ''Grand Theft Auto V'' rs1 =
                Some (ev2, pages @ r # rest, Inr game_id)
          \<and> truthy game_id \<and> (\<forall>p\<in>set pages. page_continues ''unscripted'' p) \<longrightarrow>
          (\<exists>ev3. main repr w =
                   Some (ev1 @ ev2 @ ev3
                         @ [Log ERROR (''An error occurred in main: '' @ quoted ''title'')])
               \<and> length (requests_of ev3) = Suc (length pages)
               \<and> inserts_of (ev1 @ ev2 @ ev3
                         @ [Log ERROR (''An error occurred in main: '' @ quoted ''title'')]) = []))"
proof (intro conjI impI)
  note p = page_missing_title [OF assms]
  show "page kw r acc = Inl (KeyError (quoted ''title''))" by (rule p)
  show "\<not> is_request_exception (KeyError (quoted ''title''))" by simp
  show "get_streams_loop hdrs kw prms cur acc (r # rest) =
         Some ([Request \<lparr>req_method = ''GET'', req_url = ''https://api.twitch.tv/helix/streams'',
                         req_headers = hdrs,
                         req_params = (if truthy cur then dict_set ''after'' cur prms else prms)\<rparr>],
               rest, Inl (KeyError (quoted ''title'')))"
    using p [of acc] by (simp add: Let_def)
next
  assume a: "kw = ''unscripted'' \<and> configured w client_id client_secret
          \<and> get_twitch_oauth_token client_id client_secret (responses w) = Some (ev1, rs1, Inr token)
          \<and> get_game_id repr client_id token ''Grand Theft Auto V'' rs1 =
                Some (ev2, pages @ r # rest, Inr game_id)
          \<and> truthy game_id \<and> (\<forall>p\<in>set pages. page_continues ''unscripted'' p)"
  let ?matches = "concat (map (page_matches ''unscripted'') pages)"
  from a have kw: "kw = ''unscripted''" by simp
  have p: "page ''unscripted'' r acc' = Inl (KeyError (quoted ''title''))" for acc'
    using page_missing_title [OF assms, of acc'] kw by simp
  then have stop: "\<not> page_continues ''unscripted'' r"
    by (simp add: page_continues_def)
  have res: "loop_result ''unscripted'' ([] @ ?matches) r = Inl (KeyError (quoted ''title''))"
    using p [of ?matches] by (simp add: loop_result_def)
  from a have pages: "\<forall>p\<in>set pages. page_continues ''unscripted'' p" by simp
  from loop_stops [OF pages stop, of "api_headers repr client_id token"
      "[(''game_id'', game_id), (''first'', JInt 100)]" JNull "[]" rest] res
  obtain ev3 where ev3:
    "get_streams repr client_id token game_id ''unscripted'' (pages @ r # rest) =
        Some (ev3, rest, Inl (KeyError (quoted ''title'')))"
    "length (requests_of ev3) = Suc (length pages)" "inserts_of ev3 = []"
    by (auto simp: get_streams_def)
  from a have c: "configured w client_id client_secret"
    and t: "get_twitch_oauth_token client_id client_secret (responses w) = Some (ev1, rs1, Inr token)"
    and g: "get_game_id repr client_id token ''Grand Theft Auto V'' rs1 =
                Some (ev2, pages @ r # rest, Inr game_id)"
    and tr: "truthy game_id"
    by simp_all
  from main_streams [OF c t g tr ev3(1)]
  have m: "main repr w =
             Some (ev1 @ ev2 @ ev3 @ [Log ERROR (''An error occurred in main: '' @ quoted ''title'')])"
    by simp
  have "inserts_of ev1 = []" using token_events [OF t] by simp
  moreover have "inserts_of ev2 = []" using game_id_events [OF g] by simp
  ultimately have "inserts_of (ev1 @ ev2 @ ev3
                         @ [Log ERROR (''An error occurred in main: '' @ quoted ''title'')]) = []"
    using ev3(3) by simp
  with m ev3(2)
  show "\<exists>ev3. main repr w =
                   Some (ev1 @ ev2 @ ev3
                         @ [Log ERROR (''An error occurred in main: '' @ quoted ''title'')])
               \<and> length (requests_of ev3) = Suc (length pages)
               \<and> inserts_of (ev1 @ ev2 @ ev3
                         @ [Log ERROR (''An error occurred in main: '' @ quoted ''title'')]) = []"
    by blast
qed

lemma stream_record_game_name:
  "stream_record entry = Inr rec \<Longrightarrow> subscript rec ''game_name'' = Inr (JStr ''Grand Theft Auto V'')"
  by (auto simp: stream_record_def split: sum.splits)

lemma filter_streams_same_fields:
  assumes "map_of kvs1 ''title'' = map_of kvs2 ''title''"
    and "map_of kvs1 ''user_name'' = map_of kvs2 ''user_name''"
    and "map_of kvs1 ''viewer_count'' = map_of kvs2 ''viewer_count''"
  shows "filter_streams kw (es1 @ JObj kvs1 # es2) acc = filter_streams kw (es1 @ JObj kvs2 # es2) acc"
proof -
  have s: "subscript (JObj kvs1) ''title'' = subscript (JObj kvs2) ''title''"
    "subscript (JObj kvs1) ''user_name'' = subscript (JObj kvs2) ''user_name''"
    "subscript (JObj kvs1) ''viewer_count'' = subscript (JObj kvs2) ''viewer_count''"
    using assms by simp_all
  have r: "stream_record (JObj kvs1) = stream_record (JObj kvs2)"
    by (simp only: stream_record_def s)
  have "filter_streams kw (JObj kvs1 # es2) a = filter_streams kw (JObj kvs2 # es2) a" for a
    by (simp only: filter_streams.simps r s(1))
  then show ?thesis
    by (cases "filter_streams kw es1 acc")
      (simp_all add: filter_streams_append del: filter_streams.simps)
qed

lemma map_of_without_key:
  "k \<noteq> k' \<Longrightarrow> map_of (filter (\<lambda>kv. fst kv \<noteq> k') kvs) k = map_of kvs k"
  by (induction kvs) auto

lemma filter_streams_without_game_name:
  "filter_streams kw (es1 @ JObj (filter (\<lambda>kv. fst kv \<noteq> ''game_name'') kvs) # es2) acc =
   filter_streams kw (es1 @ JObj kvs # es2) acc"
  by (rule filter_streams_same_fields) (simp_all add: map_of_without_key)

text \<open>
  Claim C8, amended: during stream pagination, an entry of a page response that lacks
  the title field, the entries before it on the page being processed without error, is
  a fatal data-shape error: the subscript raises \<^verbatim>\<open>KeyError\<close>, which is not a
  \<^verbatim>\<open>RequestException\<close>, so the handler of the loop does not catch it and it leaves the
  pagination step after the request for that page, whatever was accumulated. In a
  configured run it ends the run: \<^verbatim>\<open>main\<close> logs it, no further page is requested and no
  row is inserted. An entry that lacks the game-name field is not an error: the entries
  of a page are processed the same whatever their \<^verbatim>\<open>game_name\<close> field, present or not
  (only the title, the user name and the viewer count are read), and the game name of
  every record is the constant \<^verbatim>\<open>Grand Theft Auto V\<close>.
\<close>

theorem missing_title_is_fatal:
  assumes "fetch r = Inr data" and "dict_get data ''data'' (JArr []) = Inr entries"
    and "py_iter entries = Inr (before @ JObj kvs # after)"
    and "filter_streams kw before [] = Inr found"
    and "map_of kvs ''title'' = None"
  shows "page kw r acc = Inl (KeyError (quoted ''title''))
     \<and> \<not> is_request_exception (KeyError (quoted ''title''))
     \<and> get_streams_loop hdrs kw prms cur acc (r # rest) =
         Some ([Request \<lparr>req_method = ''GET'', req_url = ''https://api.twitch.tv/helix/streams'',
                         req_headers = hdrs,
                         req_params = (if truthy cur then dict_set ''after'' cur prms else prms)\<rparr>],
               rest, Inl (KeyError (quoted ''title'')))
     \<and> (kw = ''unscripted'' \<and> configured w client_id client_secret
          \<and> get_twitch_oauth_token client_id client_secret (responses w) = Some (ev1, rs1, Inr token)
          \<and> get_game_id repr client_id token ''Grand Theft Auto V'' rs1 =
                Some (ev2, pages @ r # rest, Inr game_id)
          \<and> truthy game_id \<and> (\<forall>p\<in>set pages. page_continues ''unscripted'' p) \<longrightarrow>
          (\<exists>ev3. main repr w =
                   Some (ev1 @ ev2 @ ev3
                         @ [Log ERROR (''An error occurred in main: '' @ quoted ''title'')])
               \<and> length (requests_of ev3) = Suc (length pages)
               \<and> inserts_of (ev1 @ ev2 @ ev3
                         @ [Log ERROR (''An error occurred in main: '' @ quoted ''title'')]) = []))
     \<and> (stream_record entry = Inr rec \<longrightarrow>
          subscript rec ''game_name'' = Inr (JStr ''Grand Theft Auto V''))
     \<and> (map_of kvs1 ''title'' = map_of kvs2 ''title''
          \<and> map_of kvs1 ''user_name'' = map_of kvs2 ''user_name''
          \<and> map_of kvs1 ''viewer_count'' = map_of kvs2 ''viewer_count'' \<longrightarrow>
          filter_streams kw (es1 @ JObj kvs1 # es2) acc =
          filter_streams kw (es1 @ JObj kvs2 # es2) acc)
     \<and> filter_streams kw (es1 @ JObj (filter (\<lambda>kv. fst kv \<noteq> ''game_name'') kvs1) # es2) acc =
        filter_streams kw (es1 @ JObj kvs1 # es2) acc"
proof -
  have title: "page kw r acc = Inl (KeyError (quoted ''title''))
     \<and> \<not> is_request_exception (KeyError (quoted ''title''))
     \<and> get_streams_loop hdrs kw prms cur acc (r # rest) =
         Some ([Request \<lparr>req_method = ''GET'', req_url = ''https://api.twitch.tv/helix/streams'',
                         req_headers = hdrs,
                         req_params = (if truthy cur then dict_set ''after'' cur prms else prms)\<rparr>],
               rest, Inl (KeyError (quoted ''title'')))
     \<and> (kw = ''unscripted'' \<and> configured w client_id client_secret
          \<and> get_twitch_oauth_token client_id client_secret (responses w) = Some (ev1, rs1, Inr token)
          \<and> get_game_id repr client_id token ''Grand Theft Auto V'' rs1 =
                Some (ev2, pages @ r # rest, Inr game_id)
          \<and> truthy game_id \<and> (\<forall>p\<in>set pages. page_continues ''unscripted'' p) \<longrightarrow>
          (\<exists>ev3. main repr w =
                   Some (ev1 @ ev2 @ ev3
                         @ [Log ERROR (''An error occurred in main: '' @ quoted ''title'')])
               \<and> length (requests_of ev3) = Suc (length pages)
               \<and> inserts_of (ev1 @ ev2 @ ev3
                         @ [Log ERROR (''An error occurred in main: '' @ quoted ''title'')]) = []))"
    by (rule missing_title_run [OF assms])
  have const: "stream_record entry = Inr rec \<longrightarrow>
          subscript rec ''game_name'' = Inr (JStr ''Grand Theft Auto V'')"
    using stream_record_game_name by blast
  have same: "map_of kvs1 ''title'' = map_of kvs2 ''title''
          \<and> map_of kvs1 ''user_name'' = map_of kvs2 ''user_name''
          \<and> map_of kvs1 ''viewer_count'' = map_of kvs2 ''viewer_count'' \<longrightarrow>
          filter_streams kw (es1 @ JObj kvs1 # es2) acc =
          filter_streams kw (es1 @ JObj kvs2 # es2) acc"
    using filter_streams_same_fields by blast
  have without: "filter_streams kw (es1 @ JObj (filter (\<lambda>kv. fst kv \<noteq> ''game_name'') kvs1) # es2) acc =
        filter_streams kw (es1 @ JObj kvs1 # es2) acc"
    by (rule filter_streams_without_game_name)
  from title const same without show ?thesis by blast
qed

theorem missing_title_is_fatal_witness:
  "configured world_missing_title ''id'' ''secret''
   \<and> page_continues ''unscripted'' page_one
   \<and> page ''unscripted'' page_without_title [alice] = Inl (KeyError (quoted ''title''))
   \<and> (\<exists>ev3. main (\<lambda>v. []) world_missing_title =
         Some ([Request (token_request ''id'' ''secret'')]
               @ [Request (games_request (\<lambda>v. []) ''id'' (JStr ''tok'') ''Grand Theft Auto V'')]
               @ ev3 @ [Log ERROR (''An error occurred in main: '' @ quoted ''title'')])
         \<and> length (requests_of ev3) = 2)
   \<and> filter_streams ''unscripted''
        [JObj [(''title'', JStr ''Epic Unscripted RP''), (''user_name'', JStr ''Alice''),
               (''viewer_count'', JInt 42)]] [] =
      filter_streams ''unscripted''
        [JObj [(''game_name'', JStr ''Grand Theft Auto V''), (''title'', JStr ''Epic Unscripted RP''),
               (''user_name'', JStr ''Alice''), (''viewer_count'', JInt 42)]] []"
proof -
  have c: "configured world_missing_title ''id'' ''secret''"
    by (simp add: configured_def world_missing_title_def)
  have t: "get_twitch_oauth_token ''id'' ''secret'' (responses world_missing_title) =
      Some ([Request (token_request ''id'' ''secret'')],
            [game_ok, page_one, page_without_title], Inr (JStr ''tok''))"
    by (simp add: world_missing_title_def token_result token_ok_def transport_error_def
        raise_for_status_def)
  have g: "get_game_id (\<lambda>v. []) ''id'' (JStr ''tok'') ''Grand Theft Auto V''
             [game_ok, page_one, page_without_title] =
      Some ([Request (games_request (\<lambda>v. []) ''id'' (JStr ''tok'') ''Grand Theft Auto V'')],
            [page_one] @ page_without_title # [], Inr (JStr ''32982''))"
    by (simp add: get_game_id_def game_ok_def games_request_def raise_for_status_def)
  have f: "fetch page_without_title =
      Inr (JObj [(''data'', JArr [JObj [(''user_name'', JStr ''Bob''), (''viewer_count'', JInt 5)]]),
                 (''pagination'', JObj [])])"
    by (simp add: page_without_title_def raise_for_status_def)
  have d: "dict_get (JObj [(''data'', JArr [JObj [(''user_name'', JStr ''Bob''), (''viewer_count'', JInt 5)]]),
                 (''pagination'', JObj [])]) ''data'' (JArr [])
      = Inr (JArr [JObj [(''user_name'', JStr ''Bob''), (''viewer_count'', JInt 5)]])"
    by simp
  have i: "py_iter (JArr [JObj [(''user_name'', JStr ''Bob''), (''viewer_count'', JInt 5)]])
      = Inr ([] @ JObj [(''user_name'', JStr ''Bob''), (''viewer_count'', JInt 5)] # [])"
    by simp
  have b: "filter_streams ''unscripted'' [] [] = Inr []" by simp
  have m: "map_of [(''user_name'', JStr ''Bob''), (''viewer_count'', JInt 5)] ''title'' = None"
    by simp
  note th = missing_title_is_fatal [OF f d i b m, where acc = "[alice]" and hdrs = "[]"
      and prms = "[]" and cur = JNull and rest = "[]" and w = world_missing_title
      and client_id = "''id''" and client_secret = "''secret''"
      and ?ev1.0 = "[Request (token_request ''id'' ''secret'')]"
      and ?rs1.0 = "[game_ok, page_one, page_without_title]" and token = "JStr ''tok''"
      and repr = "\<lambda>v. []"
      and ?ev2.0 = "[Request (games_request (\<lambda>v. []) ''id'' (JStr ''tok'') ''Grand Theft Auto V'')]"
      and pages = "[page_one]" and game_id = "JStr ''32982''"
      and ?es1.0 = "[]" and ?es2.0 = "[]"
      and ?kvs1.0 = "[(''game_name'', JStr ''Grand Theft Auto V''), (''title'', JStr ''Epic Unscripted RP''),
               (''user_name'', JStr ''Alice''), (''viewer_count'', JInt 42)]"
      and ?kvs2.0 = "[(''title'', JStr ''Epic Unscripted RP''), (''user_name'', JStr ''Alice''),
               (''viewer_count'', JInt 42)]"
      and entry = "JObj [(''title'', JStr ''Epic Unscripted RP''), (''user_name'', JStr ''Alice''),
               (''viewer_count'', JInt 42)]"
      and rec = alice]
  from th have p: "page ''unscripted'' page_without_title [alice] = Inl (KeyError (quoted ''title''))"
    by (rule conjunct1)
  from th [THEN conjunct2, THEN conjunct2, THEN conjunct2, THEN conjunct1]
  have "''unscripted'' = ''unscripted'' \<and> configured world_missing_title ''id'' ''secret''
          \<and> get_twitch_oauth_token ''id'' ''secret'' (responses world_missing_title) =
              Some ([Request (token_request ''id'' ''secret'')],
                    [game_ok, page_one, page_without_title], Inr (JStr ''tok''))
          \<and> get_game_id (\<lambda>v. []) ''id'' (JStr ''tok'') ''Grand Theft Auto V''
               [game_ok, page_one, page_without_title] =
                Some ([Request (games_request (\<lambda>v. []) ''id'' (JStr ''tok'') ''Grand Theft Auto V'')],
                      [page_one] @ page_without_title # [], Inr (JStr ''32982''))
          \<and> truthy (JStr ''32982'') \<and> (\<forall>p\<in>set [page_one]. page_continues ''unscripted'' p) \<longrightarrow>
          (\<exists>ev3. main (\<lambda>v. []) world_missing_title =
                   Some ([Request (token_request ''id'' ''secret'')]
                         @ [Request (games_request (\<lambda>v. []) ''id'' (JStr ''tok'') ''Grand Theft Auto V'')]
                         @ ev3
                         @ [Log ERROR (''An error occurred in main: '' @ quoted ''title'')])
               \<and> length (requests_of ev3) = Suc (length [page_one])
               \<and> inserts_of ([Request (token_request ''id'' ''secret'')]
                         @ [Request (games_request (\<lambda>v. []) ''id'' (JStr ''tok'') ''Grand Theft Auto V'')]
                         @ ev3
                         @ [Log ERROR (''An error occurred in main: '' @ quoted ''title'')]) = [])"
    .
  with c t g page_one_facts(1)
  have "\<exists>ev3. main (\<lambda>v. []) world_missing_title =
         Some ([Request (token_request ''id'' ''secret'')]
               @ [Request (games_request (\<lambda>v. []) ''id'' (JStr ''tok'') ''Grand Theft Auto V'')]
               @ ev3 @ [Log ERROR (''An error occurred in main: '' @ quoted ''title'')])
         \<and> length (requests_of ev3) = 2"
    by auto
  moreover have "filter_streams ''unscripted''
        [JObj [(''title'', JStr ''Epic Unscripted RP''), (''user_name'', JStr ''Alice''),
               (''viewer_count'', JInt 42)]] [] =
      filter_streams ''unscripted''
        [JObj [(''game_name'', JStr ''Grand Theft Auto V''), (''title'', JStr ''Epic Unscripted RP''),
               (''user_name'', JStr ''Alice''), (''viewer_count'', JInt 42)]] []"
    by (simp add: stream_record_def)
  ultimately show ?thesis using c p page_one_facts(1) by blast
qed

lemma filter_streams_keyword:
  assumes "subscript entry ''title'' = Inr (JStr title)"
  shows "filter_streams kw [entry] acc =
     (if (\<exists>ps ss. lower title = ps @ lower kw @ ss)
      then (case stream_record entry of Inl e \<Rightarrow> Inl e | Inr rec \<Rightarrow> Inr (acc @ [rec]))
      else Inr acc)"
  using assms py_in_iff [of "lower kw" "lower title"]
  by (simp split: sum.splits)

text \<open>
  Claim C9: given a streams-listing page whose entries are exactly
  \<^verbatim>\<open>{title "Epic Unscripted RP", user_name "Alice", viewer_count 42}\<close> and
  \<^verbatim>\<open>{title "Scripted only", user_name "Bob", viewer_count 5}\<close>, with the keyword
  \<^verbatim>\<open>unscripted\<close> and no further cursor, \<^verbatim>\<open>get_streams\<close> issues one request and returns
  exactly one record, with streamer name Alice and viewer count 42. The keyword test is
  a plain case-insensitive substring test: an entry whose title is the string \<open>title\<close>
  is matched if and only if the lowered keyword occurs in the lowered title as a
  contiguous block.
\<close>

theorem get_streams_keyword_filter:
  "(fetch r = Inr body
     \<and> dict_get body ''data'' (JArr []) =
          Inr (JArr [JObj [(''title'', JStr ''Epic Unscripted RP''), (''user_name'', JStr ''Alice''),
                           (''viewer_count'', JInt 42)],
                     JObj [(''title'', JStr ''Scripted only''), (''user_name'', JStr ''Bob''),
                           (''viewer_count'', JInt 5)]])
     \<and> dict_get body ''pagination'' (JObj []) = Inr pagination
     \<and> dict_get pagination ''cursor'' JNull = Inr cursor \<and> \<not> truthy cursor \<longrightarrow>
     get_streams repr client_id token game_id ''unscripted'' (r # rest) =
       Some ([Request \<lparr>req_method = ''GET'', req_url = ''https://api.twitch.tv/helix/streams'',
                       req_headers = api_headers repr client_id token,
                       req_params = [(''game_id'', game_id), (''first'', JInt 100)]\<rparr>],
             rest,
             Inr [JObj [(''streamer_name'', JStr ''Alice''),
                        (''stream_title'', JStr ''Epic Unscripted RP''),
                        (''viewer_count'', JInt 42),
                        (''game_name'', JStr ''Grand Theft Auto V''),
                        (''serverId'', JStr ''o3re8y'')]]))
   \<and> (subscript entry ''title'' = Inr (JStr title) \<longrightarrow>
        filter_streams kw [entry] acc =
          (if (\<exists>ps ss. lower title = ps @ lower kw @ ss)
           then (case stream_record entry of Inl e \<Rightarrow> Inl e | Inr rec \<Rightarrow> Inr (acc @ [rec]))
           else Inr acc))
   \<and> lower ''Epic Unscripted RP'' = ''epic unscripted rp''"
proof (intro conjI impI)
  assume a: "fetch r = Inr body
     \<and> dict_get body ''data'' (JArr []) =
          Inr (JArr [JObj [(''title'', JStr ''Epic Unscripted RP''), (''user_name'', JStr ''Alice''),
                           (''viewer_count'', JInt 42)],
                     JObj [(''title'', JStr ''Scripted only''), (''user_name'', JStr ''Bob''),
                           (''viewer_count'', JInt 5)]])
     \<and> dict_get body ''pagination'' (JObj []) = Inr pagination
     \<and> dict_get pagination ''cursor'' JNull = Inr cursor \<and> \<not> truthy cursor"
  have f: "filter_streams ''unscripted''
            [JObj [(''title'', JStr ''Epic Unscripted RP''), (''user_name'', JStr ''Alice''),
                   (''viewer_count'', JInt 42)],
             JObj [(''title'', JStr ''Scripted only''), (''user_name'', JStr ''Bob''),
                   (''viewer_count'', JInt 5)]] []
          = Inr [JObj [(''streamer_name'', JStr ''Alice''),
                        (''stream_title'', JStr ''Epic Unscripted RP''),
                        (''viewer_count'', JInt 42),
                        (''game_name'', JStr ''Grand Theft Auto V''),
                        (''serverId'', JStr ''o3re8y'')]]"
    by (simp add: lower_def lower_char_def stream_record_def)
  with a have "page ''unscripted'' r [] =
      Inr ([JObj [(''streamer_name'', JStr ''Alice''),
                        (''stream_title'', JStr ''Epic Unscripted RP''),
                        (''viewer_count'', JInt 42),
                        (''game_name'', JStr ''Grand Theft Auto V''),
                        (''serverId'', JStr ''o3re8y'')]], cursor)"
    by (simp add: page_def)
  with a show "get_streams repr client_id token game_id ''unscripted'' (r # rest) =
       Some ([Request \<lparr>req_method = ''GET'', req_url = ''https://api.twitch.tv/helix/streams'',
                       req_headers = api_headers repr client_id token,
                       req_params = [(''game_id'', game_id), (''first'', JInt 100)]\<rparr>],
             rest,
             Inr [JObj [(''streamer_name'', JStr ''Alice''),
                        (''stream_title'', JStr ''Epic Unscripted RP''),
                        (''viewer_count'', JInt 42),
                        (''game_name'', JStr ''Grand Theft Auto V''),
                        (''serverId'', JStr ''o3re8y'')]])"
    by (simp add: get_streams_def Let_def)
next
  assume "subscript entry ''title'' = Inr (JStr title)"
  then show "filter_streams kw [entry] acc =
          (if (\<exists>ps ss. lower title = ps @ lower kw @ ss)
           then (case stream_record entry of Inl e \<Rightarrow> Inl e | Inr rec \<Rightarrow> Inr (acc @ [rec]))
           else Inr acc)"
    by (rule filter_streams_keyword)
next
  show "lower ''Epic Unscripted RP'' = ''epic unscripted rp''"
    by (simp add: lower_def lower_char_def)
qed

theorem get_streams_keyword_filter_witness:
  "get_streams (\<lambda>v. []) ''id'' (JStr ''tok'') (JStr ''32982'') ''unscripted''
     [Response 200 ''OK'' ''https://api.twitch.tv/helix/streams''
        (Inr (JObj [(''data'',
                     JArr [JObj [(''title'', JStr ''Epic Unscripted RP''), (''user_name'', JStr ''Alice''),
                                 (''viewer_count'', JInt 42)],
                           JObj [(''title'', JStr ''Scripted only''), (''user_name'', JStr ''Bob''),
                                 (''viewer_count'', JInt 5)]]),
                    (''pagination'', JObj [])]))]
   = Some ([Request \<lparr>req_method = ''GET'', req_url = ''https://api.twitch.tv/helix/streams'',
                     req_headers = [(''Client-ID'', ''id''), (''Authorization'', ''Bearer tok'')],
                     req_params = [(''game_id'', JStr ''32982''), (''first'', JInt 100)]\<rparr>],
           [],
           Inr [JObj [(''streamer_name'', JStr ''Alice''),
                      (''stream_title'', JStr ''Epic Unscripted RP''),
                      (''viewer_count'', JInt 42),
                      (''game_name'', JStr ''Grand Theft Auto V''),
                      (''serverId'', JStr ''o3re8y'')]])
   \<and> filter_streams ''unscripted'' [JObj [(''title'', JStr ''Scripted only''), (''user_name'', JStr ''Bob''),
                                 (''viewer_count'', JInt 5)]] [] = Inr []"
  using get_streams_keyword_filter [where r = "Response 200 ''OK'' ''https://api.twitch.tv/helix/streams''
        (Inr (JObj [(''data'',
                     JArr [JObj [(''title'', JStr ''Epic Unscripted RP''), (''user_name'', JStr ''Alice''),
                                 (''viewer_count'', JInt 42)],
                           JObj [(''title'', JStr ''Scripted only''), (''user_name'', JStr ''Bob''),
                                 (''viewer_count'', JInt 5)]]),
                    (''pagination'', JObj [])]))"
      and body = "JObj [(''data'',
                     JArr [JObj [(''title'', JStr ''Epic Unscripted RP''), (''user_name'', JStr ''Alice''),
                                 (''viewer_count'', JInt 42)],
                           JObj [(''title'', JStr ''Scripted only''), (''user_name'', JStr ''Bob''),
                                 (''viewer_count'', JInt 5)]]),
                    (''pagination'', JObj [])]"
      and pagination = "JObj []" and cursor = JNull and repr = "\<lambda>v. []" and client_id = "''id''"
      and token = "JStr ''tok''" and game_id = "JStr ''32982''" and rest = "[]"
      and entry = "JObj [(''title'', JStr ''Scripted only''), (''user_name'', JStr ''Bob''),
                                 (''viewer_count'', JInt 5)]"
      and title = "''Scripted only''" and kw = "''unscripted''" and acc = "[]"]
  by (simp add: raise_for_status_def api_headers_def lower_def lower_char_def stream_record_def)

subsection \<open>Token acquisition\<close>

lemma main_token_raises:
  assumes "configured w client_id client_secret"
    and "get_twitch_oauth_token client_id client_secret (responses w) = Some (ev1, rs1, Inl e)"
  shows "main repr w = Some (ev1 @ [Log ERROR (''An error occurred in main: '' @ err_str e)])"
  using main_try_token [OF assms(1), of repr] assms(2) by (simp add: main_def)

lemma main_after_token:
  assumes "configured w client_id client_secret"
    and "get_twitch_oauth_token client_id client_secret (responses w) = Some (ev1, rs1, Inr token)"
  shows "main repr w =
     (case get_game_id repr client_id token ''Grand Theft Auto V'' rs1 of
        None \<Rightarrow> None
      | Some (ev2, rs2, Inl e) \<Rightarrow>
          Some (ev1 @ ev2 @ [Log ERROR (''An error occurred in main: '' @ err_str e)])
      | Some (ev2, rs2, Inr game_id) \<Rightarrow>
          if \<not> truthy game_id
          then Some (ev1 @ ev2 @ [Log ERROR ''Could not find game ID for Grand Theft Auto V''])
          else
            (case get_streams repr client_id token game_id ''unscripted'' rs2 of
               None \<Rightarrow> None
             | Some (ev3, rs3, res) \<Rightarrow>
                 Some (ev1 @ ev2 @ ev3 @
                   (case res of
                      Inl e \<Rightarrow> [Log ERROR (''An error occurred in main: '' @ err_str e)]
                    | Inr streams \<Rightarrow>
                        Log INFO (''Found '' @ show_nat (length streams) @ '' streams with ''
                                  @ quoted ''unscripted'' @ '' in title'')
                        # fst (log_to_supabase (inserts w) streams)))))"
proof (cases "get_game_id repr client_id token ''Grand Theft Auto V'' rs1")
  case None
  with main_try_token [OF assms(1), of repr] assms(2) show ?thesis by (simp add: main_def)
next
  case (Some g)
  obtain ev2 rs2 res2 where g: "g = (ev2, rs2, res2)" by (cases g)
  show ?thesis
  proof (cases res2)
    case (Inl e)
    with main_try_token [OF assms(1), of repr] assms(2) Some g show ?thesis
      by (simp add: main_def)
  next
    case gid: (Inr game_id)
    show ?thesis
    proof (cases "truthy game_id")
      case False
      with main_try_token [OF assms(1), of repr] assms(2) Some g gid show ?thesis
        by (simp add: main_def)
    next
      case True
      show ?thesis
      proof (cases "get_streams repr client_id token game_id ''unscripted'' rs2")
        case None
        with main_try_token [OF assms(1), of repr] assms(2) Some g gid True show ?thesis
          by (simp add: main_def)
      next
        case streams: (Some p)
        obtain ev3 rs3 res where p: "p = (ev3, rs3, res)" by (cases p)
        from Some g gid have game:
          "get_game_id repr client_id token ''Grand Theft Auto V'' rs1 = Some (ev2, rs2, Inr game_id)"
          by simp
        from streams p have s:
          "get_streams repr client_id token game_id ''unscripted'' rs2 = Some (ev3, rs3, res)"
          by simp
        from main_streams [OF assms game True s] game True s show ?thesis by simp
      qed
    qed
  qed
qed

lemma game_id_request:
  "\<exists>ev res. get_game_id repr client_id token game_name (g # rest) =
       Some (Request (games_request repr client_id token game_name) # ev, rest, res)
     \<and> requests_of ev = []"
  by (auto simp: get_game_id_def games_request_def Let_def split: sum.splits)

text \<open>
  Claim C10, as stated, at a token response with status 200 whose body is the JSON array
  \<^verbatim>\<open>[]\<close>: there is no transport error and the body has no \<^verbatim>\<open>access_token\<close>, yet the
  function does not return \<^verbatim>\<open>None\<close>: \<^verbatim>\<open>.get\<close> raises \<^verbatim>\<open>AttributeError\<close>.
\<close>

theorem token_not_object_raises:
  "\<not> transport_error (Response 200 ''OK'' ''https://id.twitch.tv/oauth2/token'' (Inr (JArr [])))
   \<and> get_twitch_oauth_token ''id'' ''secret''
        [Response 200 ''OK'' ''https://id.twitch.tv/oauth2/token'' (Inr (JArr []))]
      = Some ([Request (token_request ''id'' ''secret'')], [], Inl (no_attribute (JArr []) ''get''))"
  by (simp add: transport_error_def raise_for_status_def token_result)

text \<open>
  Claim C10, amended: token acquisition raises on a transport error, which it logs and
  raises again, and when the decoded body is not a JSON object, with the
  \<^verbatim>\<open>AttributeError\<close> of \<^verbatim>\<open>.get\<close>; in both cases a configured run is aborted: \<^verbatim>\<open>main\<close> logs
  the error and ends, the token request being its only request. When the body is a JSON
  object the function returns the value at \<^verbatim>\<open>access_token\<close>, and \<^verbatim>\<open>None\<close> when the key is
  absent. In a configured run whose token response is a JSON object without
  \<^verbatim>\<open>access_token\<close>, the run goes on to game resolution with \<^verbatim>\<open>None\<close> as the token: it is
  the run of the rest of \<^verbatim>\<open>main\<close> with that token, its second request is the games lookup
  with the header \<^verbatim>\<open>Authorization: Bearer None\<close>, and it asks for the response to that
  request.
\<close>

theorem token_acquisition:
  "(transport_error r \<longrightarrow>
      (\<exists>e. is_request_exception e \<and>
           get_twitch_oauth_token client_id client_secret (r # rs) =
             Some ([Request (token_request client_id client_secret),
                    Log ERROR (''Failed to obtain Twitch OAuth token: '' @ err_str e)], rs, Inl e)))
   \<and> (fetch r = Inr (JObj kvs) \<longrightarrow>
        get_twitch_oauth_token client_id client_secret (r # rs) =
          Some ([Request (token_request client_id client_secret)], rs,
                Inr (case map_of kvs ''access_token'' of None \<Rightarrow> JNull | Some t \<Rightarrow> t)))
   \<and> (fetch r = Inr body \<and> (\<forall>kvs. body \<noteq> JObj kvs) \<longrightarrow>
        get_twitch_oauth_token client_id client_secret (r # rs) =
          Some ([Request (token_request client_id client_secret)], rs, Inl (no_attribute body ''get'')))
   \<and> (configured w client_id client_secret \<and> responses w = r # rs \<and> fetch r = Inr (JObj kvs)
        \<and> map_of kvs ''access_token'' = None \<longrightarrow>
        (rs = [] \<longrightarrow> main repr w = None)
        \<and> (\<forall>evs. main repr w = Some evs \<longrightarrow>
              (\<exists>more. requests_of evs =
                 token_request client_id client_secret
                 # games_request repr client_id JNull ''Grand Theft Auto V'' # more))
        \<and> req_headers (games_request repr client_id JNull ''Grand Theft Auto V'') =
            [(''Client-ID'', client_id), (''Authorization'', ''Bearer None'')])
   \<and> (configured w client_id client_secret \<and> responses w = r # rs \<and> transport_error r \<longrightarrow>
        (\<exists>e. fetch r = Inl e \<and>
             main repr w =
               Some [Request (token_request client_id client_secret),
                     Log ERROR (''Failed to obtain Twitch OAuth token: '' @ err_str e),
                     Log ERROR (''An error occurred in main: '' @ err_str e)]))
   \<and> (configured w client_id client_secret \<and> responses w = r # rs \<and> fetch r = Inr body
        \<and> (\<forall>kvs. body \<noteq> JObj kvs) \<longrightarrow>
        main repr w =
          Some [Request (token_request client_id client_secret),
                Log ERROR (''An error occurred in main: '' @ err_str (no_attribute body ''get''))])
   \<and> (configured w client_id client_secret \<and> responses w = r # rs \<and> fetch r = Inr (JObj kvs)
        \<and> map_of kvs ''access_token'' = None \<longrightarrow>
        main repr w =
          (case get_game_id repr client_id JNull ''Grand Theft Auto V'' rs of
             None \<Rightarrow> None
           | Some (ev2, rs2, Inl e) \<Rightarrow>
               Some ([Request (token_request client_id client_secret)] @ ev2
                     @ [Log ERROR (''An error occurred in main: '' @ err_str e)])
           | Some (ev2, rs2, Inr game_id) \<Rightarrow>
               if \<not> truthy game_id
               then Some ([Request (token_request client_id client_secret)] @ ev2
                          @ [Log ERROR ''Could not find game ID for Grand Theft Auto V''])
               else
                 (case get_streams repr client_id JNull game_id ''unscripted'' rs2 of
                    None \<Rightarrow> None
                  | Some (ev3, rs3, res) \<Rightarrow>
                      Some ([Request (token_request client_id client_secret)] @ ev2 @ ev3 @
                        (case res of
                           Inl e \<Rightarrow> [Log ERROR (''An error occurred in main: '' @ err_str e)]
                         | Inr streams \<Rightarrow>
                             Log INFO (''Found '' @ show_nat (length streams) @ '' streams with ''
                                       @ quoted ''unscripted'' @ '' in title'')
                             # fst (log_to_supabase (inserts w) streams))))))
   \<and> (\<exists>ev res. get_game_id repr client_id JNull ''Grand Theft Auto V'' (g # rest) =
          Some (Request (games_request repr client_id JNull ''Grand Theft Auto V'') # ev, rest, res)
        \<and> requests_of ev = [])"
proof -
  have outcomes: "(transport_error r \<longrightarrow>
      (\<exists>e. is_request_exception e \<and>
           get_twitch_oauth_token client_id client_secret (r # rs) =
             Some ([Request (token_request client_id client_secret),
                    Log ERROR (''Failed to obtain Twitch OAuth token: '' @ err_str e)], rs, Inl e)))
   \<and> (fetch r = Inr (JObj kvs) \<longrightarrow>
        get_twitch_oauth_token client_id client_secret (r # rs) =
          Some ([Request (token_request client_id client_secret)], rs,
                Inr (case map_of kvs ''access_token'' of None \<Rightarrow> JNull | Some t \<Rightarrow> t)))
   \<and> (fetch r = Inr body \<and> (\<forall>kvs. body \<noteq> JObj kvs) \<longrightarrow>
        get_twitch_oauth_token client_id client_secret (r # rs) =
          Some ([Request (token_request client_id client_secret)], rs, Inl (no_attribute body ''get'')))
   \<and> (configured w client_id client_secret \<and> responses w = r # rs \<and> fetch r = Inr (JObj kvs)
        \<and> map_of kvs ''access_token'' = None \<longrightarrow>
        (rs = [] \<longrightarrow> main repr w = None)
        \<and> (\<forall>evs. main repr w = Some evs \<longrightarrow>
              (\<exists>more. requests_of evs =
                 token_request client_id client_secret
                 # games_request repr client_id JNull ''Grand Theft Auto V'' # more))
        \<and> req_headers (games_request repr client_id JNull ''Grand Theft Auto V'') =
            [(''Client-ID'', client_id), (''Authorization'', ''Bearer None'')])"
    by (rule token_outcomes)
  have transport: "\<exists>e. fetch r = Inl e \<and>
             main repr w =
               Some [Request (token_request client_id client_secret),
                     Log ERROR (''Failed to obtain Twitch OAuth token: '' @ err_str e),
                     Log ERROR (''An error occurred in main: '' @ err_str e)]"
    if a: "configured w client_id client_secret \<and> responses w = r # rs \<and> transport_error r"
  proof -
    from a obtain e where e: "fetch r = Inl e"
      by (auto simp: transport_error_def split: sum.splits)
    with a have "get_twitch_oauth_token client_id client_secret (responses w) =
        Some ([Request (token_request client_id client_secret),
               Log ERROR (''Failed to obtain Twitch OAuth token: '' @ err_str e)], rs, Inl e)"
      by (simp add: token_result)
    from main_token_raises [OF _ this, of repr] a e show ?thesis by simp
  qed
  have shape: "main repr w =
          Some [Request (token_request client_id client_secret),
                Log ERROR (''An error occurred in main: '' @ err_str (no_attribute body ''get''))]"
    if a: "configured w client_id client_secret \<and> responses w = r # rs \<and> fetch r = Inr body
        \<and> (\<forall>kvs. body \<noteq> JObj kvs)"
  proof -
    from a have "dict_get body ''access_token'' JNull = Inl (no_attribute body ''get'')"
      by (cases body) simp_all
    with a have "get_twitch_oauth_token client_id client_secret (responses w) =
        Some ([Request (token_request client_id client_secret)], rs, Inl (no_attribute body ''get''))"
      by (simp add: token_result transport_error_def)
    from main_token_raises [OF _ this, of repr] a show ?thesis by simp
  qed
  have proceeds: "main repr w =
          (case get_game_id repr client_id JNull ''Grand Theft Auto V'' rs of
             None \<Rightarrow> None
           | Some (ev2, rs2, Inl e) \<Rightarrow>
               Some ([Request (token_request client_id client_secret)] @ ev2
                     @ [Log ERROR (''An error occurred in main: '' @ err_str e)])
           | Some (ev2, rs2, Inr game_id) \<Rightarrow>
               if \<not> truthy game_id
               then Some ([Request (token_request client_id client_secret)] @ ev2
                          @ [Log ERROR ''Could not find game ID for Grand Theft Auto V''])
               else
                 (case get_streams repr client_id JNull game_id ''unscripted'' rs2 of
                    None \<Rightarrow> None
                  | Some (ev3, rs3, res) \<Rightarrow>
                      Some ([Request (token_request client_id client_secret)] @ ev2 @ ev3 @
                        (case res of
                           Inl e \<Rightarrow> [Log ERROR (''An error occurred in main: '' @ err_str e)]
                         | Inr streams \<Rightarrow>
                             Log INFO (''Found '' @ show_nat (length streams) @ '' streams with ''
                                       @ quoted ''unscripted'' @ '' in title'')
                             # fst (log_to_supabase (inserts w) streams)))))"
    if a: "configured w client_id client_secret \<and> responses w = r # rs \<and> fetch r = Inr (JObj kvs)
        \<and> map_of kvs ''access_token'' = None"
  proof -
    from a have t: "get_twitch_oauth_token client_id client_secret (responses w) =
        Some ([Request (token_request client_id client_secret)], rs, Inr JNull)"
      by (simp add: token_result transport_error_def)
    from a have c: "configured w client_id client_secret" by simp
    show ?thesis by (rule main_after_token [OF c t])
  qed
  have lookup: "\<exists>ev res. get_game_id repr client_id JNull ''Grand Theft Auto V'' (g # rest) =
          Some (Request (games_request repr client_id JNull ''Grand Theft Auto V'') # ev, rest, res)
        \<and> requests_of ev = []"
    by (rule game_id_request)
  from outcomes transport shape proceeds lookup show ?thesis by blast
qed

theorem token_acquisition_witness:
  "configured world_no_token ''id'' ''secret''
   \<and> main (\<lambda>v. []) world_no_token =
       Some [Request (token_request ''id'' ''secret''),
             Request \<lparr>req_method = ''GET'', req_url = ''https://api.twitch.tv/helix/games'',
                      req_headers = [(''Client-ID'', ''id''), (''Authorization'', ''Bearer None'')],
                      req_params = [(''name'', JStr ''Grand Theft Auto V'')]\<rparr>,
             Log ERROR ''Failed to fetch game ID for Grand Theft Auto V: 401 Client Error: Unauthorized for url: https://api.twitch.tv/helix/games?name=Grand+Theft+Auto+V'',
             Log ERROR ''Could not find game ID for Grand Theft Auto V'']
   \<and> transport_error (NoResponse ''Connection refused'')
   \<and> get_twitch_oauth_token ''id'' ''secret'' [NoResponse ''Connection refused''] =
       Some ([Request (token_request ''id'' ''secret''),
              Log ERROR ''Failed to obtain Twitch OAuth token: Connection refused''], [],
             Inl (RequestException ''Connection refused''))
   \<and> main (\<lambda>v. []) (world_no_token\<lparr>responses := [NoResponse ''Connection refused'']\<rparr>) =
       Some [Request (token_request ''id'' ''secret''),
             Log ERROR ''Failed to obtain Twitch OAuth token: Connection refused'',
             Log ERROR ''An error occurred in main: Connection refused'']"
  using token_acquisition [where r = "Response 200 ''OK'' ''https://id.twitch.tv/oauth2/token''
                     (Inr (JObj [(''token_type'', JStr ''bearer'')]))"
      and kvs = "[(''token_type'', JStr ''bearer'')]" and w = world_no_token
      and client_id = "''id''" and client_secret = "''secret''" and repr = "\<lambda>v. []"
      and rs = "[Response 401 ''Unauthorized'' ''https://api.twitch.tv/helix/games?name=Grand+Theft+Auto+V''
                     (Inr (JObj [(''error'', JStr ''Unauthorized'')]))]"]
    token_acquisition [where r = "NoResponse ''Connection refused''" and rs = "[]"
      and client_id = "''id''" and client_secret = "''secret''" and repr = "\<lambda>v. []"
      and w = "world_no_token\<lparr>responses := [NoResponse ''Connection refused'']\<rparr>"]
  by (simp add: configured_def world_no_token_def main_def main_try_def
      load_environment_variables_def env_item_def get_twitch_oauth_token_def get_game_id_def
      raise_for_status_def token_request_def api_headers_def transport_error_def digit_def)

end
